theory Spec2Isabelle
  imports Complex_Main "HOL-Library.AList"
begin

section \<open>Conventions of the embedding\<close>

text \<open>
  The Python sources (\<^verbatim>\<open>models.py\<close>, \<^verbatim>\<open>risk/manager.py\<close>,
  \<^verbatim>\<open>strategies/manager.py\<close>, \<^verbatim>\<open>trading_engine.py\<close>) are embedded shallowly.
  A Python \<^verbatim>\<open>float\<close> is read as the \<^typ>\<open>real\<close> number it denotes, a finite
  binary64 value; NaN and the infinities are not values of the model, and an operation
  whose rounded result leaves the range of the finite doubles is outside it. The
  arithmetic of \<^verbatim>\<open>risk/manager.py\<close> and \<^verbatim>\<open>strategies/manager.py\<close> and the two
  products by which opportunities are ranked are rounded after every operation, to the
  nearest double with ties to the even one (\<open>fl\<close> below); comparisons, \<^verbatim>\<open>min\<close> and
  \<^verbatim>\<open>max\<close> are exact, and so are the clamps of \<^verbatim>\<open>__post_init__\<close>. The property
  \<^verbatim>\<open>expected_value\<close> and the clock arithmetic of \<^verbatim>\<open>trading_engine.py\<close> (the
  elapsed time of the breaker, the expiry of a cache entry) are read in exact
  arithmetic. A Python \<^verbatim>\<open>int\<close> is an \<^typ>\<open>int\<close>, a \<^verbatim>\<open>str\<close> a \<^typ>\<open>string\<close>
  whose characters are the code points below 256, a \<^verbatim>\<open>datetime\<close> and the value of
  \<^verbatim>\<open>time.time()\<close> a \<^typ>\<open>real\<close> number of seconds. Every clock reading of the
  source is a parameter of the function that makes it. An exception is a value: the left
  summand of the result.
\<close>

subsection \<open>Python primitives\<close>

text \<open>\<^verbatim>\<open>int(x)\<close> on a float truncates towards zero.\<close>

definition py_int :: "real \<Rightarrow> int" where
  "py_int x = (if 0 \<le> x then \<lfloor>x\<rfloor> else \<lceil>x\<rceil>)"

subsection \<open>Double-precision arithmetic\<close>

text \<open>Rounding a real to the nearest integer, a tie to the even one.\<close>

definition rne :: "real \<Rightarrow> int" where
  "rne y = (let f = \<lfloor>y\<rfloor>
            in if y - of_int f < 1/2 then f
               else if 1/2 < y - of_int f then f + 1
               else if even f then f else f + 1)"

text \<open>
  The binary exponent of a double: the largest \<open>e \<le> 1023\<close> with \<open>2 ^ e \<le> \<bar>x\<bar>\<close>, and
  \<open>-1022\<close>, the exponent of the subnormal numbers, when there is none above it. The
  search runs down from 1023.
\<close>

fun binade_from :: "nat \<Rightarrow> int \<Rightarrow> real \<Rightarrow> int" where
  "binade_from 0 e x = e"
| "binade_from (Suc n) e x = (if 2 powi e \<le> x then e else binade_from n (e - 1) x)"

definition binade :: "real \<Rightarrow> int" where
  "binade x = binade_from 2045 1023 \<bar>x\<bar>"

text \<open>
  The spacing of the doubles around \<open>x\<close> (53 significant bits), and the rounding \<open>fl\<close>
  of a real to the nearest double. A float operation of the source is \<open>fl\<close> of the exact
  result; a decimal literal is \<open>fl\<close> of its decimal value.
\<close>

definition ulp :: "real \<Rightarrow> real" where
  "ulp x = 2 powi (binade x - 52)"

definition fl :: "real \<Rightarrow> real" where
  "fl x = of_int (rne (x / ulp x)) * ulp x"

text \<open>The conversion of an \<^verbatim>\<open>int\<close> operand in a product with a float.\<close>

definition float_of_int :: "int \<Rightarrow> real" where
  "float_of_int n = fl (of_int n)"

text \<open>
  The two error terms of a rounding: the unit roundoff, relative, and half the spacing
  of the subnormal numbers, absolute.
\<close>

definition eps :: real where
  "eps = 2 powi (- 53)"

definition eta :: real where
  "eta = 2 powi (- 1075)"

text \<open>
  \<^verbatim>\<open>str.lower()\<close> and \<^verbatim>\<open>str.upper()\<close> on the code points below 256: the ASCII
  letters and the Latin-1 letters \<open>0xC0..0xDE\<close> (without the multiplication sign
  \<open>0xD7\<close>) and \<open>0xE0..0xFE\<close> (without the division sign \<open>0xF7\<close>) change case by 32.
\<close>

definition lower_char :: "char \<Rightarrow> char" where
  "lower_char c =
     (let n = (of_char c :: nat)
      in if (65 \<le> n \<and> n \<le> 90) \<or> (192 \<le> n \<and> n \<le> 222 \<and> n \<noteq> 215)
         then char_of (n + 32) else c)"

definition lower :: "string \<Rightarrow> string" where
  "lower s = map lower_char s"

definition upper_char :: "char \<Rightarrow> char" where
  "upper_char c =
     (let n = (of_char c :: nat)
      in if (97 \<le> n \<and> n \<le> 122) \<or> (224 \<le> n \<and> n \<le> 254 \<and> n \<noteq> 247)
         then char_of (n - 32) else c)"

definition upper :: "string \<Rightarrow> string" where
  "upper s = map upper_char s"

section \<open>The opportunity model (\<^verbatim>\<open>models.py\<close>)\<close>

record MarketOpportunity =
  ticker :: string
  market_title :: string
  edge :: real
  confidence :: real
  side :: string
  entry_price :: real
  suggested_size :: int
  reasoning :: string
  liquidity_score :: real
  probability :: real
  timestamp :: real
  correlation_group :: string

text \<open>
  \<^verbatim>\<open>MarketOpportunity.__post_init__\<close>: the generated constructor stores its arguments
  in the fields and then runs this method. Each of its assignments reads only the field
  it overwrites, so the sequence of assignments is one simultaneous update.
\<close>

definition normalize_side :: "string \<Rightarrow> string" where
  "normalize_side s = (let s = lower s in if s \<noteq> ''yes'' \<and> s \<noteq> ''no'' then ''yes'' else s)"

definition post_init :: "MarketOpportunity \<Rightarrow> MarketOpportunity" where
  "post_init self =
     self\<lparr>confidence := max 0 (min 1 (confidence self)),
          probability := max 0 (min 1 (probability self)),
          liquidity_score := max 0 (min 1 (liquidity_score self)),
          side := normalize_side (side self),
          edge := max 0 (edge self),
          entry_price := max 0 (min 100 (entry_price self)),
          suggested_size := max 0 (suggested_size self)\<rparr>"

text \<open>The constructor call \<^verbatim>\<open>MarketOpportunity(ticker=..., ...)\<close>.\<close>

definition mk_opportunity ::
  "string \<Rightarrow> string \<Rightarrow> real \<Rightarrow> real \<Rightarrow> string \<Rightarrow> real \<Rightarrow> int \<Rightarrow> string \<Rightarrow> real \<Rightarrow> real
     \<Rightarrow> real \<Rightarrow> string \<Rightarrow> MarketOpportunity" where
  "mk_opportunity tk title e c sd price sz why liq p ts grp =
     post_init \<lparr>ticker = tk, market_title = title, edge = e, confidence = c, side = sd,
                entry_price = price, suggested_size = sz, reasoning = why,
                liquidity_score = liq, probability = p, timestamp = ts,
                correlation_group = grp\<rparr>"

text \<open>The property \<^verbatim>\<open>score\<close>.\<close>

definition score :: "MarketOpportunity \<Rightarrow> real" where
  "score self = fl (fl (edge self * confidence self) * liquidity_score self)"

text \<open>The property \<^verbatim>\<open>expected_value\<close>.\<close>

definition expected_value :: "MarketOpportunity \<Rightarrow> real" where
  "expected_value self =
     (let (win_prob, payout) =
            (if side self = ''yes'' then (probability self, 100 - entry_price self)
             else (1 - probability self, entry_price self))
      in (win_prob * payout) - ((1 - win_prob) * entry_price self))"

text \<open>
  The expected value as the specification words it, to compare with the property above:
  the win probability times the payout minus the loss probability times the amount
  lost, where side \<open>yes\<close> wins \<open>100 - entry_price\<close> with probability \<open>p\<close> and loses
  \<open>entry_price\<close>, and side \<open>no\<close> is the mirror image: it wins \<open>entry_price\<close> with
  probability \<open>1 - p\<close> and loses \<open>100 - entry_price\<close>.
\<close>

definition expected_value_mirrored :: "MarketOpportunity \<Rightarrow> real" where
  "expected_value_mirrored self =
     (if side self = ''yes''
      then probability self * (100 - entry_price self)
             - (1 - probability self) * entry_price self
      else (1 - probability self) * entry_price self
             - probability self * (100 - entry_price self))"

text \<open>The invariant that construction establishes.\<close>

definition valid_opportunity :: "MarketOpportunity \<Rightarrow> bool" where
  "valid_opportunity self \<longleftrightarrow>
     0 \<le> confidence self \<and> confidence self \<le> 1 \<and>
     0 \<le> probability self \<and> probability self \<le> 1 \<and>
     0 \<le> liquidity_score self \<and> liquidity_score self \<le> 1 \<and>
     0 \<le> entry_price self \<and> entry_price self \<le> 100 \<and>
     0 \<le> edge self \<and> 0 \<le> suggested_size self \<and>
     (side self = ''yes'' \<or> side self = ''no'')"

section \<open>The circuit breaker (\<^verbatim>\<open>trading_engine.py\<close>)\<close>

text \<open>
  The attribute \<^verbatim>\<open>state\<close> holds one of the three strings \<^verbatim>\<open>"closed"\<close>,
  \<^verbatim>\<open>"open"\<close> and \<^verbatim>\<open>"half-open"\<close>; \<^verbatim>\<open>last_failure_time\<close> starts as \<^verbatim>\<open>None\<close>.
\<close>

datatype breaker_state = Closed | Open | HalfOpen

record CircuitBreaker =
  failure_threshold :: int
  recovery_timeout :: real
  failure_count :: int
  last_failure_time :: "real option"
  state :: breaker_state

text \<open>\<^verbatim>\<open>CircuitBreaker.__init__\<close>.\<close>

definition CircuitBreaker_init :: "int \<Rightarrow> real \<Rightarrow> CircuitBreaker" where
  "CircuitBreaker_init threshold timeout =
     \<lparr>failure_threshold = threshold, recovery_timeout = timeout, failure_count = 0,
      last_failure_time = None, state = Closed\<rparr>"

text \<open>
  The protected operation \<^verbatim>\<open>func\<close> is given by what it does when awaited: it returns
  a value or raises. \<^verbatim>\<open>call\<close> raises \<^verbatim>\<open>CircuitBreakerOpen\<close> itself or re-raises
  the operation's exception.
\<close>

datatype ('a, 'e) outcome = Returns 'a | Raises 'e

datatype 'e call_error = CircuitBreakerOpen | Raised 'e

text \<open>
  The first locked block of \<^verbatim>\<open>call\<close>. The test
  \<^verbatim>\<open>self.last_failure_time and time.time() - self.last_failure_time > self.recovery_timeout\<close>
  is false when the recorded time is \<^verbatim>\<open>None\<close> or \<^verbatim>\<open>0.0\<close> (both falsy). The result
  \<open>None\<close> stands for raising \<^verbatim>\<open>CircuitBreakerOpen\<close>; \<open>now\<close> is the reading of
  \<^verbatim>\<open>time.time()\<close>.
\<close>

definition admit :: "CircuitBreaker \<Rightarrow> real \<Rightarrow> CircuitBreaker option" where
  "admit self now =
     (if state self = Open then
        (if (case last_failure_time self of
               None \<Rightarrow> False
             | Some t \<Rightarrow> t \<noteq> 0 \<and> now - t > recovery_timeout self)
         then Some (self\<lparr>state := HalfOpen\<rparr>)
         else None)
      else Some self)"

text \<open>The locked block after the operation has returned.\<close>

definition on_success :: "CircuitBreaker \<Rightarrow> CircuitBreaker" where
  "on_success self =
     (if state self = HalfOpen then self\<lparr>state := Closed, failure_count := 0\<rparr> else self)"

text \<open>
  The locked block of the exception handler; \<open>now\<close> is its reading of
  \<^verbatim>\<open>time.time()\<close>.
\<close>

definition on_failure :: "CircuitBreaker \<Rightarrow> real \<Rightarrow> CircuitBreaker" where
  "on_failure self now =
     (if failure_count self + 1 \<ge> failure_threshold self
      then self\<lparr>failure_count := failure_count self + 1, last_failure_time := Some now,
                 state := Open\<rparr>
      else self\<lparr>failure_count := failure_count self + 1, last_failure_time := Some now\<rparr>)"

text \<open>
  \<^verbatim>\<open>CircuitBreaker.call\<close>, one caller at a time: \<open>t_enter\<close> is the clock reading of
  the admission test, \<open>t_exit\<close> the one of the exception handler.
\<close>

definition call ::
  "CircuitBreaker \<Rightarrow> real \<Rightarrow> ('a, 'e) outcome \<Rightarrow> real
     \<Rightarrow> CircuitBreaker \<times> ('e call_error + 'a)" where
  "call self t_enter func t_exit =
     (case admit self t_enter of
        None \<Rightarrow> (self, Inl CircuitBreakerOpen)
      | Some self1 \<Rightarrow>
          (case func of
             Returns result \<Rightarrow> (on_success self1, Inr result)
           | Raises e \<Rightarrow> (on_failure self1 t_exit, Inl (Raised e))))"

text \<open>A sequence of calls, each with its two clock readings; the results are dropped.\<close>

fun run_calls ::
  "CircuitBreaker \<Rightarrow> (real \<times> ('a, 'e) outcome \<times> real) list \<Rightarrow> CircuitBreaker" where
  "run_calls self [] = self"
| "run_calls self ((t_enter, func, t_exit) # cs) =
     run_calls (fst (call self t_enter func t_exit)) cs"

fun is_failure :: "(real \<times> ('a, 'e) outcome \<times> real) \<Rightarrow> bool" where
  "is_failure (_, Raises _, _) = True"
| "is_failure (_, Returns _, _) = False"

definition count_failures :: "(real \<times> ('a, 'e) outcome \<times> real) list \<Rightarrow> nat" where
  "count_failures cs = length (filter is_failure cs)"

definition exit_time :: "(real \<times> ('a, 'e) outcome \<times> real) \<Rightarrow> real" where
  "exit_time c = snd (snd c)"

section \<open>The TTL cache (\<^verbatim>\<open>trading_engine.py\<close>)\<close>

datatype py_error = ZeroDivisionError | ValueError

text \<open>
  The two dictionaries of \<^verbatim>\<open>AsyncCache\<close> are association lists in insertion order
  (a Python \<^verbatim>\<open>dict\<close> keeps it, and \<^verbatim>\<open>min\<close> over its items depends on it):
  assigning to a present key replaces its value in place, assigning to a new key appends.
  \<open>redis\<close> says whether a remote client is configured (the truth value of
  \<^verbatim>\<open>self.redis\<close>); what the remote write does is a parameter of \<open>set\<close>.
\<close>

record 'v AsyncCache =
  redis :: bool
  local_cache :: "(string \<times> 'v) list"
  local_ttl :: "(string \<times> real) list"
  default_ttl :: int
  local_max_size :: int
  hits :: nat
  misses :: nat

text \<open>\<^verbatim>\<open>AsyncCache.__init__\<close>.\<close>

definition AsyncCache_init :: "bool \<Rightarrow> int \<Rightarrow> 'v AsyncCache" where
  "AsyncCache_init redis_client ttl =
     \<lparr>redis = redis_client, local_cache = [], local_ttl = [], default_ttl = ttl,
      local_max_size = 500, hits = 0, misses = 0\<rparr>"

text \<open>\<^verbatim>\<open>ttl or self.default_ttl\<close>: \<^verbatim>\<open>None\<close> and \<^verbatim>\<open>0\<close> are falsy.\<close>

definition effective_ttl :: "'v AsyncCache \<Rightarrow> int option \<Rightarrow> int" where
  "effective_ttl self ttl =
     (case ttl of None \<Rightarrow> default_ttl self
      | Some t \<Rightarrow> if t = 0 then default_ttl self else t)"

text \<open>
  \<^verbatim>\<open>min(self.local_ttl.items(), key=lambda x: x[1])[0]\<close>: the first item of smallest
  expiry; \<^verbatim>\<open>min\<close> of an empty sequence raises \<^verbatim>\<open>ValueError\<close>.
\<close>

fun min_by_expiry :: "(string \<times> real) \<Rightarrow> (string \<times> real) list \<Rightarrow> (string \<times> real)" where
  "min_by_expiry best [] = best"
| "min_by_expiry best (x # xs) = min_by_expiry (if snd x < snd best then x else best) xs"

definition oldest_key :: "(string \<times> real) list \<Rightarrow> string option" where
  "oldest_key items = (case items of [] \<Rightarrow> None | x # xs \<Rightarrow> Some (fst (min_by_expiry x xs)))"

text \<open>The two assignments of the locked block of \<^verbatim>\<open>set\<close>.\<close>

definition write_local :: "'v AsyncCache \<Rightarrow> string \<Rightarrow> 'v \<Rightarrow> real \<Rightarrow> 'v AsyncCache" where
  "write_local self key v expiry =
     self\<lparr>local_cache := AList.update key v (local_cache self),
          local_ttl := AList.update key expiry (local_ttl self)\<rparr>"

text \<open>The eviction that follows them.\<close>

definition evict :: "'v AsyncCache \<Rightarrow> py_error + 'v AsyncCache" where
  "evict self =
     (if int (length (local_cache self)) > local_max_size self then
        (case oldest_key (local_ttl self) of
           None \<Rightarrow> Inl ValueError
         | Some k \<Rightarrow> Inr (self\<lparr>local_cache := AList.delete k (local_cache self),
                                local_ttl := AList.delete k (local_ttl self)\<rparr>))
      else Inr self)"

text \<open>
  \<^verbatim>\<open>AsyncCache.set\<close>. \<open>setex\<close> is what awaiting
  \<^verbatim>\<open>self.redis.setex(key, ttl, json_dumps(value))\<close> does when it is reached; \<open>now\<close> is
  the reading of \<^verbatim>\<open>datetime.now()\<close>. When a client is configured and the write
  returns, the method returns at once; an exception of the write is caught and logged.
  The result is the cache afterwards, or the exception that leaves \<^verbatim>\<open>set\<close>.
\<close>

definition remote_written :: "'v AsyncCache \<Rightarrow> (unit, 'e) outcome \<Rightarrow> bool" where
  "remote_written self setex \<longleftrightarrow>
     redis self \<and> (case setex of Returns _ \<Rightarrow> True | Raises _ \<Rightarrow> False)"

definition cache_set ::
  "'v AsyncCache \<Rightarrow> string \<Rightarrow> 'v \<Rightarrow> int option \<Rightarrow> (unit, 'e) outcome \<Rightarrow> real
     \<Rightarrow> py_error + 'v AsyncCache" where
  "cache_set self key v ttl setex now =
     (if remote_written self setex
      then Inr self
      else evict (write_local self key v (now + real_of_int (effective_ttl self ttl))))"

section \<open>The risk manager (\<^verbatim>\<open>risk/manager.py\<close>)\<close>

datatype RiskLevel = LOW | MEDIUM | HIGH | CRITICAL

record RiskConfig =
  max_position_size_usd :: real
  max_portfolio_allocation :: real
  max_single_trade_allocation :: real
  max_daily_loss_usd :: real
  max_daily_loss_pct :: real
  max_weekly_loss_usd :: real
  max_drawdown_limit :: real
  max_intraday_drawdown :: real
  kelly_multiplier :: real
  min_kelly_fraction :: real
  max_kelly_fraction :: real
  volatility_adjustment :: bool
  max_volatility_threshold :: real
  max_concentration :: real
  max_correlation_threshold :: real
  min_edge :: real
  min_confidence :: real
  min_liquidity_score :: real
  max_trades_per_hour :: int
  max_trades_per_day :: int
  cooldown_period_minutes :: int
  trading_halt_on_volatility :: bool
  volatility_spike_threshold :: real

text \<open>The defaults of the dataclass; a decimal literal is the double nearest to it.\<close>

definition RiskConfig_default :: RiskConfig where
  "RiskConfig_default =
     \<lparr>max_position_size_usd = 100, max_portfolio_allocation = fl (25/100),
      max_single_trade_allocation = fl (10/100), max_daily_loss_usd = 30,
      max_daily_loss_pct = fl (10/100), max_weekly_loss_usd = 100,
      max_drawdown_limit = fl (20/100), max_intraday_drawdown = fl (15/100),
      kelly_multiplier = fl (5/10), min_kelly_fraction = fl (1/100),
      max_kelly_fraction = fl (50/100), volatility_adjustment = True,
      max_volatility_threshold = fl (40/100), max_concentration = fl (30/100),
      max_correlation_threshold = fl (70/100), min_edge = fl (5/10),
      min_confidence = fl (3/10), min_liquidity_score = fl (1/10),
      max_trades_per_hour = 10, max_trades_per_day = 50, cooldown_period_minutes = 5,
      trading_halt_on_volatility = True, volatility_spike_threshold = 2\<rparr>"

text \<open>
  \<^verbatim>\<open>Position\<close> and \<^verbatim>\<open>TradeRecord\<close>; their fields carry a prefix where the name is
  a field of \<^verbatim>\<open>MarketOpportunity\<close> too.
\<close>

record Position =
  pos_ticker :: string
  pos_side :: string
  pos_size :: int
  pos_entry_price :: real
  entry_time :: real
  current_price :: "real option"
  unrealized_pnl :: real
  market_correlation_group :: string

record TradeRecord =
  tr_ticker :: string
  tr_side :: string
  tr_size :: int
  tr_entry_price :: real
  exit_price :: "real option"
  pnl :: real
  tr_timestamp :: real
  risk_level :: RiskLevel

text \<open>The dictionary \<^verbatim>\<open>circuit_breakers\<close> with its four fixed keys.\<close>

record breakers =
  daily_loss :: bool
  drawdown :: bool
  volatility :: bool
  trade_frequency :: bool

record RiskManager =
  config :: RiskConfig
  daily_pnl :: real
  weekly_pnl :: real
  peak_balance :: real
  current_drawdown :: real
  intraday_drawdown :: real
  active_positions_value :: real
  active_positions :: "(string \<times> Position) list"
  trade_history :: "TradeRecord list"
  hourly_trades :: "real list"
  daily_trades :: "real list"
  ticker_last_trade :: "(string \<times> real) list"
  volatility_estimate :: real
  var_95 :: real
  expected_shortfall :: real
  correlation_groups :: "(string \<times> string list) list"
  price_history :: "(string \<times> real list) list"
  circuit_breakers :: breakers

text \<open>\<^verbatim>\<open>RiskManager.__init__\<close>.\<close>

definition RiskManager_init :: "RiskConfig \<Rightarrow> RiskManager" where
  "RiskManager_init cfg =
     \<lparr>config = cfg, daily_pnl = 0, weekly_pnl = 0, peak_balance = 0, current_drawdown = 0,
      intraday_drawdown = 0, active_positions_value = 0, active_positions = [],
      trade_history = [], hourly_trades = [], daily_trades = [], ticker_last_trade = [],
      volatility_estimate = fl (15/100), var_95 = 0, expected_shortfall = 0,
      correlation_groups = [], price_history = [],
      circuit_breakers = \<lparr>daily_loss = False, drawdown = False, volatility = False,
                            trade_frequency = False\<rparr>\<rparr>"

text \<open>\<^verbatim>\<open>portfolio.get("balance", 0.0)\<close>.\<close>

definition get_balance :: "(string \<rightharpoonup> real) \<Rightarrow> real" where
  "get_balance portfolio = (case portfolio ''balance'' of None \<Rightarrow> 0 | Some b \<Rightarrow> b)"

text \<open>\<^verbatim>\<open>_calculate_volatility_adjustment\<close>.\<close>

definition calculate_volatility_adjustment :: "RiskManager \<Rightarrow> real" where
  "calculate_volatility_adjustment self =
     (if volatility_estimate self \<le> 0 then 1
      else if volatility_estimate self > max_volatility_threshold (config self)
      then fl (max_volatility_threshold (config self) / volatility_estimate self)
      else 1)"

text \<open>\<^verbatim>\<open>_get_correlation_exposure\<close>: the loop over \<^verbatim>\<open>active_positions.values()\<close>.\<close>

fun exposure_loop :: "string \<Rightarrow> real \<Rightarrow> Position list \<Rightarrow> real" where
  "exposure_loop grp exposure [] = exposure"
| "exposure_loop grp exposure (position # ps) =
     exposure_loop grp
       (if market_correlation_group position = grp
        then fl (exposure
                   + fl (fl (float_of_int (pos_size position) * pos_entry_price position) / 100))
        else exposure) ps"

definition get_correlation_exposure :: "RiskManager \<Rightarrow> string \<Rightarrow> real" where
  "get_correlation_exposure self grp = exposure_loop grp 0 (map snd (active_positions self))"

text \<open>
  The steps of \<^verbatim>\<open>check_trade_risk\<close>, in the order of the source. The Kelly fraction
  \<^verbatim>\<open>win_prob - ((1.0 - win_prob) / net_odds)\<close>, with the net odds
  \<^verbatim>\<open>(100.0 - entry_price) / entry_price\<close>; it is computed only for an entry price
  strictly between 0 and 100, where the net odds of a double are positive (lemma
  \<open>net_odds_positive\<close>), so that neither division raises.
\<close>

definition net_odds :: "real \<Rightarrow> real" where
  "net_odds e = fl (fl (100 - e) / e)"

definition kelly_fraction :: "real \<Rightarrow> real \<Rightarrow> real" where
  "kelly_fraction win_prob e = fl (win_prob - fl (fl (1 - win_prob) / net_odds e))"

text \<open>The Kelly fraction of the specification, \<open>f* = p - (1 - p) / b\<close>, over the reals.\<close>

definition kelly_exact :: "real \<Rightarrow> real \<Rightarrow> real" where
  "kelly_exact p e = p - (1 - p) / ((100 - e) / e)"

text \<open>Fractional Kelly within its bounds, then the volatility adjustment.\<close>

definition target_fraction :: "RiskManager \<Rightarrow> real \<Rightarrow> real" where
  "target_fraction self kf =
     (let tf = max (min_kelly_fraction (config self))
                 (min (fl (kf * kelly_multiplier (config self)))
                      (max_kelly_fraction (config self)))
      in if volatility_adjustment (config self)
         then fl (tf * calculate_volatility_adjustment self) else tf)"

text \<open>The position limits and the dollar amount.\<close>

definition max_alloc_fraction :: "RiskManager \<Rightarrow> real \<Rightarrow> real" where
  "max_alloc_fraction self tf =
     min (min tf (max_portfolio_allocation (config self)))
         (max_single_trade_allocation (config self))"

definition trade_amount_usd :: "RiskManager \<Rightarrow> real \<Rightarrow> real \<Rightarrow> real" where
  "trade_amount_usd self balance tf =
     min (fl (balance * max_alloc_fraction self tf)) (max_position_size_usd (config self))"

text \<open>
  The conversion to contracts, the correlation check and the final size test; \<open>0\<close> is a
  rejection.
\<close>

definition size_contracts :: "RiskManager \<Rightarrow> real \<Rightarrow> string \<Rightarrow> real \<Rightarrow> real \<Rightarrow> int" where
  "size_contracts self e grp balance amount_usd =
     (let num_contracts = py_int (fl (fl (amount_usd * 100) / e));
          current_exposure = get_correlation_exposure self grp;
          potential_exposure =
            fl (current_exposure + fl (fl (float_of_int num_contracts * e) / 100));
          max_exposure = fl (balance * max_concentration (config self));
          available_exposure = fl (max_exposure - current_exposure)
      in if potential_exposure > max_exposure then
           (if available_exposure \<le> 0 then 0
            else if py_int (fl (fl (available_exposure * 100) / e)) < 1 then 0
            else py_int (fl (fl (available_exposure * 100) / e)))
         else if num_contracts < 1 then 0
         else num_contracts)"

text \<open>
  The cooldown test; \<open>now\<close> is the reading of \<^verbatim>\<open>datetime.now()\<close>. The difference of
  two datetimes is exact, a \<^verbatim>\<open>timedelta\<close> counting microseconds; \<^verbatim>\<open>total_seconds()\<close>
  and the division by 60 round.
\<close>

definition cooldown_active :: "RiskManager \<Rightarrow> string \<Rightarrow> real \<Rightarrow> bool" where
  "cooldown_active self tk now =
     (case map_of (ticker_last_trade self) tk of
        None \<Rightarrow> False
      | Some last_trade \<Rightarrow>
          fl (fl (now - last_trade) / 60) < real_of_int (cooldown_period_minutes (config self)))"

text \<open>
  \<^verbatim>\<open>check_trade_risk\<close>. It returns the number of contracts together with the manager
  as the method leaves it; the source assigns to no attribute.
\<close>

definition check_trade_risk ::
  "RiskManager \<Rightarrow> MarketOpportunity \<Rightarrow> (string \<rightharpoonup> real) \<Rightarrow> real \<Rightarrow> int \<times> RiskManager" where
  "check_trade_risk self opportunity portfolio now =
     (if ticker opportunity = [] then (0, self)
      else if daily_loss (circuit_breakers self) then (0, self)
      else if drawdown (circuit_breakers self) then (0, self)
      else if trade_frequency (circuit_breakers self) then (0, self)
      else if edge opportunity < min_edge (config self) then (0, self)
      else if confidence opportunity < min_confidence (config self) then (0, self)
      else if liquidity_score opportunity < min_liquidity_score (config self) then (0, self)
      else if cooldown_active self (ticker opportunity) now then (0, self)
      else if entry_price opportunity \<le> 0 \<or> entry_price opportunity \<ge> 100 then (0, self)
      else if kelly_fraction (probability opportunity) (entry_price opportunity) \<le> 0
      then (0, self)
      else (size_contracts self (entry_price opportunity) (correlation_group opportunity)
              (get_balance portfolio)
              (trade_amount_usd self (get_balance portfolio)
                 (target_fraction self
                    (kelly_fraction (probability opportunity) (entry_price opportunity)))),
            self))"

text \<open>The gates before the Kelly computation, as one predicate.\<close>

definition gates_pass :: "RiskManager \<Rightarrow> MarketOpportunity \<Rightarrow> real \<Rightarrow> bool" where
  "gates_pass self opportunity now \<longleftrightarrow>
     ticker opportunity \<noteq> [] \<and>
     \<not> daily_loss (circuit_breakers self) \<and> \<not> drawdown (circuit_breakers self) \<and>
     \<not> trade_frequency (circuit_breakers self) \<and>
     min_edge (config self) \<le> edge opportunity \<and>
     min_confidence (config self) \<le> confidence opportunity \<and>
     min_liquidity_score (config self) \<le> liquidity_score opportunity \<and>
     \<not> cooldown_active self (ticker opportunity) now"

section \<open>Signal aggregation (\<^verbatim>\<open>strategies/manager.py\<close>)\<close>

text \<open>
  \<^verbatim>\<open>sum\<close> over floats: the additions run from left to right, each one rounded, as
  CPython does up to version 3.11 (from 3.12 on \<^verbatim>\<open>sum\<close> compensates the rounding errors
  of the partial sums).
\<close>

definition py_sum :: "real list \<Rightarrow> real" where
  "py_sum xs = foldl (\<lambda>acc x. fl (acc + x)) 0 xs"

text \<open>
  \<^verbatim>\<open>sum(f(s) * s.confidence for s in signals) / total_weight\<close> and
  \<^verbatim>\<open>sum(f(s) for s in signals) / len(signals)\<close>, which
  \<^verbatim>\<open>_create_consensus_opportunity\<close> computes for several fields. They are used only
  where the divisor is not zero.
\<close>

definition weighted_by_confidence ::
  "(MarketOpportunity \<Rightarrow> real) \<Rightarrow> MarketOpportunity list \<Rightarrow> real" where
  "weighted_by_confidence f signals =
     fl (py_sum (map (\<lambda>s. fl (f s * confidence s)) signals) / py_sum (map confidence signals))"

definition average :: "(MarketOpportunity \<Rightarrow> real) \<Rightarrow> MarketOpportunity list \<Rightarrow> real" where
  "average f signals = fl (py_sum (map f signals) / float_of_int (int (length signals)))"

text \<open>The confidence-weighted average of the specification, over the reals.\<close>

definition confidence_weighted_average ::
  "(MarketOpportunity \<Rightarrow> real) \<Rightarrow> MarketOpportunity list \<Rightarrow> real" where
  "confidence_weighted_average f signals =
     sum_list (map (\<lambda>s. f s * confidence s) signals) / sum_list (map confidence signals)"

text \<open>
  The strategy name inside the first square brackets of a reasoning text:
  \<^verbatim>\<open>s.reasoning[s.reasoning.find("[") + 1 : s.reasoning.find("]")]\<close>, taken when both
  brackets occur. A slice whose end lies before its start is empty.
\<close>

definition find_char :: "char \<Rightarrow> string \<Rightarrow> nat" where
  "find_char c s = length (takeWhile (\<lambda>d. d \<noteq> c) s)"

definition strategy_name :: "string \<Rightarrow> string option" where
  "strategy_name r =
     (if CHR ''['' \<in> set r \<and> CHR '']'' \<in> set r
      then Some (take (find_char CHR '']'' r - (find_char CHR ''['' r + 1))
                   (drop (find_char CHR ''['' r + 1) r))
      else None)"

text \<open>\<^verbatim>\<open>', '.join(strategies)\<close>.\<close>

fun join :: "string \<Rightarrow> string list \<Rightarrow> string" where
  "join sep [] = []"
| "join sep [x] = x"
| "join sep (x # y # ys) = x @ sep @ join sep (y # ys)"

text \<open>
  The names are collected in a Python \<^verbatim>\<open>set\<close>, whose iteration order is not
  determined by the program; here they stand in the order of their last occurrence. Only
  the reasoning text depends on it.
\<close>

definition consensus_reasoning :: "MarketOpportunity list \<Rightarrow> string \<Rightarrow> string" where
  "consensus_reasoning signals sd =
     ''CONSENSUS ('' @ join '', '' (remdups (List.map_filter (\<lambda>s. strategy_name (reasoning s)) signals))
       @ ''): Multiple strategies agree on '' @ upper sd"

text \<open>
  \<^verbatim>\<open>_create_consensus_opportunity\<close>. The first division raises
  \<^verbatim>\<open>ZeroDivisionError\<close> when the confidences sum to zero, as they do for no signals.
  \<open>now\<close> is the default timestamp of the opportunity built.
\<close>

definition create_consensus_opportunity ::
  "MarketOpportunity list \<Rightarrow> string \<Rightarrow> real \<Rightarrow> py_error + MarketOpportunity" where
  "create_consensus_opportunity signals sd now =
     (case signals of
        [] \<Rightarrow> Inl ZeroDivisionError
      | base # rest \<Rightarrow>
          if py_sum (map confidence signals) = 0 then Inl ZeroDivisionError
          else Inr (mk_opportunity (ticker base) (market_title base)
                 (fl (weighted_by_confidence edge signals * fl (11/10)))
                 (min (fl (average confidence signals * fl (12/10))) 1)
                 sd
                 (weighted_by_confidence entry_price signals)
                 (fold max (map suggested_size rest) (suggested_size base))
                 (consensus_reasoning signals sd)
                 (average liquidity_score signals)
                 (if sd = ''yes'' then weighted_by_confidence probability signals
                  else fl (1 - weighted_by_confidence probability signals))
                 now
                 (correlation_group base)))"

text \<open>\<^verbatim>\<open>max(opportunities, key=lambda x: x.score)\<close>: the first of the largest score.\<close>

fun max_by_score :: "MarketOpportunity \<Rightarrow> MarketOpportunity list \<Rightarrow> MarketOpportunity" where
  "max_by_score best [] = best"
| "max_by_score best (x # xs) = max_by_score (if score x > score best then x else best) xs"

text \<open>\<^verbatim>\<open>aggregate_signals\<close>; it reads nothing of the manager.\<close>

definition aggregate_signals ::
  "MarketOpportunity list \<Rightarrow> real \<Rightarrow> py_error + MarketOpportunity option" where
  "aggregate_signals opportunities now =
     (case opportunities of
        [] \<Rightarrow> Inr None
      | [x] \<Rightarrow> Inr (Some x)
      | x # y # zs \<Rightarrow>
          (let yes_signals = filter (\<lambda>x. side x = ''yes'') opportunities;
               no_signals = filter (\<lambda>x. side x = ''no'') opportunities
           in if length yes_signals \<ge> 2 \<and> length no_signals = 0
              then map_sum id Some (create_consensus_opportunity yes_signals ''yes'' now)
              else if length no_signals \<ge> 2 \<and> length yes_signals = 0
              then map_sum id Some (create_consensus_opportunity no_signals ''no'' now)
              else Inr (Some (max_by_score x (y # zs)))))"

section \<open>Opportunity selection (\<^verbatim>\<open>trading_engine.py\<close>)\<close>




section \<open>Properties of the opportunity model\<close>

lemma lower_maybe: "lower ''maybe'' = ''maybe''"
  by code_simp

lemma lower_NO: "lower ''NO'' = ''no''"
  by code_simp

lemma post_init_fields:
  "confidence (post_init self) = max 0 (min 1 (confidence self))"
  "probability (post_init self) = max 0 (min 1 (probability self))"
  "liquidity_score (post_init self) = max 0 (min 1 (liquidity_score self))"
  "edge (post_init self) = max 0 (edge self)"
  "entry_price (post_init self) = max 0 (min 100 (entry_price self))"
  "suggested_size (post_init self) = max 0 (suggested_size self)"
  "side (post_init self) = normalize_side (side self)"
  "ticker (post_init self) = ticker self"
  "market_title (post_init self) = market_title self"
  "reasoning (post_init self) = reasoning self"
  "timestamp (post_init self) = timestamp self"
  "correlation_group (post_init self) = correlation_group self"
  by (simp_all add: post_init_def)

lemma normalize_side_cases:
  "normalize_side s = (if lower s = ''no'' then ''no'' else ''yes'')"
  by (simp add: normalize_side_def Let_def)

text \<open>
  Claim C1. Whatever the fields passed to the constructor, after construction
  confidence, probability and liquidity score lie in \<open>[0, 1]\<close>, the entry price lies in
  \<open>[0, 100]\<close>, edge and suggested size are not negative, and the side is \<open>yes\<close> or
  \<open>no\<close>: the lower-cased input when that is \<open>yes\<close> or \<open>no\<close>, and \<open>yes\<close> for every other
  input.
\<close>

theorem post_init_clamps:
  "0 \<le> confidence (post_init self) \<and> confidence (post_init self) \<le> 1 \<and>
   0 \<le> probability (post_init self) \<and> probability (post_init self) \<le> 1 \<and>
   0 \<le> liquidity_score (post_init self) \<and> liquidity_score (post_init self) \<le> 1 \<and>
   0 \<le> entry_price (post_init self) \<and> entry_price (post_init self) \<le> 100 \<and>
   0 \<le> edge (post_init self) \<and> 0 \<le> suggested_size (post_init self) \<and>
   (side (post_init self) = ''yes'' \<or> side (post_init self) = ''no'') \<and>
   (lower (side self) \<noteq> ''yes'' \<and> lower (side self) \<noteq> ''no''
      \<longrightarrow> side (post_init self) = ''yes'') \<and>
   (lower (side self) = ''yes'' \<or> lower (side self) = ''no''
      \<longrightarrow> side (post_init self) = lower (side self))"
  by (simp add: post_init_fields normalize_side_cases)

theorem post_init_clamps_witness:
  "lower ''maybe'' \<noteq> ''yes'' \<and> lower ''maybe'' \<noteq> ''no'' \<and>
   side (post_init \<lparr>ticker = ''T'', market_title = ''t'', edge = -3, confidence = 7,
          side = ''maybe'', entry_price = 250, suggested_size = -4, reasoning = ''r'',
          liquidity_score = -1, probability = 2, timestamp = 0,
          correlation_group = ''g''\<rparr>) = ''yes''"
proof -
  let ?raw = "\<lparr>ticker = ''T'', market_title = ''t'', edge = -3, confidence = 7,
          side = ''maybe'', entry_price = 250, suggested_size = -4, reasoning = ''r'',
          liquidity_score = -1, probability = 2, timestamp = 0,
          correlation_group = ''g''\<rparr>"
  have h: "lower ''maybe'' \<noteq> ''yes'' \<and> lower ''maybe'' \<noteq> ''no''"
    by (simp add: lower_maybe)
  have "lower (side ?raw) \<noteq> ''yes'' \<and> lower (side ?raw) \<noteq> ''no''
          \<longrightarrow> side (post_init ?raw) = ''yes''"
    using post_init_clamps [of ?raw] by blast
  then have "lower ''maybe'' \<noteq> ''yes'' \<and> lower ''maybe'' \<noteq> ''no''
          \<longrightarrow> side (post_init ?raw) = ''yes''"
    by simp
  with h show ?thesis by blast
qed

lemma lower_no: "lower ''no'' = ''no''"
  by code_simp

lemma expected_value_yes:
  "side self = ''yes'' \<Longrightarrow> expected_value self = expected_value_mirrored self"
  by (simp add: expected_value_def expected_value_mirrored_def)

lemma expected_value_no:
  "side self \<noteq> ''yes'' \<Longrightarrow>
     expected_value self = (1 - 2 * probability self) * entry_price self"
  by (simp add: expected_value_def algebra_simps)

text \<open>
  Claim C6. The expected value is the win probability times the payout minus the loss
  probability times the amount lost, mirrored between the sides. For side \<open>yes\<close> the
  property computes that. For side \<open>no\<close> it subtracts the loss probability times
  \<open>entry_price\<close>, not times \<open>100 - entry_price\<close>: for a \<open>no\<close> opportunity with
  probability \<open>0.3\<close> and entry price \<open>40\<close> it returns \<open>0.7 * 40 - 0.3 * 40 = 16\<close>, where
  the mirrored computation gives \<open>0.7 * 40 - 0.3 * 60 = 10\<close>.
\<close>

theorem expected_value_no_side_not_mirrored:
  "expected_value
     (mk_opportunity ''T'' ''t'' 5 (8/10) ''no'' 40 1 ''r'' (5/10) (3/10) 0 ''general'') = 16
   \<and> expected_value_mirrored
     (mk_opportunity ''T'' ''t'' 5 (8/10) ''no'' 40 1 ''r'' (5/10) (3/10) 0 ''general'') = 10"
  by (simp add: mk_opportunity_def post_init_def normalize_side_def lower_no
      expected_value_def expected_value_mirrored_def)

section \<open>Properties of the circuit breaker\<close>

lemma admit_not_open: "state self \<noteq> Open \<Longrightarrow> admit self now = Some self"
  by (simp add: admit_def)

lemma call_closed_failure:
  "state self = Closed \<Longrightarrow>
     call self t_enter (Raises e) t_exit = (on_failure self t_exit, Inl (Raised e))"
  by (simp add: call_def admit_def)

lemma call_closed_success:
  "state self = Closed \<Longrightarrow> call self t_enter (Returns r) t_exit = (self, Inr r)"
  by (simp add: call_def admit_def on_success_def)

lemma on_failure_fields:
  "failure_count (on_failure self now) = failure_count self + 1"
  "last_failure_time (on_failure self now) = Some now"
  "failure_threshold (on_failure self now) = failure_threshold self"
  "recovery_timeout (on_failure self now) = recovery_timeout self"
  "state (on_failure self now) =
     (if failure_count self + 1 \<ge> failure_threshold self then Open else state self)"
  by (simp_all add: on_failure_def)

lemma run_calls_append:
  "run_calls self (cs @ ds) = run_calls (run_calls self cs) ds"
  by (induction self cs rule: run_calls.induct) simp_all

lemma run_calls_closed:
  "state self = Closed \<Longrightarrow>
   failure_count self + int (count_failures cs) < failure_threshold self \<Longrightarrow>
     state (run_calls self cs) = Closed \<and>
     failure_count (run_calls self cs) = failure_count self + int (count_failures cs) \<and>
     failure_threshold (run_calls self cs) = failure_threshold self \<and>
     recovery_timeout (run_calls self cs) = recovery_timeout self"
proof (induction self cs rule: run_calls.induct)
  case (1 self)
  then show ?case by (simp add: count_failures_def)
next
  case (2 self t_enter func t_exit cs)
  show ?case
  proof (cases func)
    case (Returns r)
    with 2 show ?thesis
      by (simp add: call_closed_success count_failures_def)
  next
    case (Raises e)
    have st: "state (on_failure self t_exit) = Closed"
      using 2(2,3) Raises by (simp add: on_failure_fields count_failures_def)
    have "failure_count (on_failure self t_exit) + int (count_failures cs)
            < failure_threshold (on_failure self t_exit)"
      using 2(3) Raises by (simp add: on_failure_fields count_failures_def)
    from 2(1)[unfolded Raises call_closed_failure[OF 2(2)], simplified, OF st this]
    show ?thesis
      using Raises 2(2) by (simp add: call_closed_failure on_failure_fields count_failures_def)
  qed
qed

lemma count_failures_all:
  "\<forall>c\<in>set cs. is_failure c \<Longrightarrow> count_failures cs = length cs"
  by (simp add: count_failures_def)


lemma run_failures_opens:
  fixes cs :: "(real \<times> ('a, 'e) outcome \<times> real) list"
  assumes closed: "state cb = Closed"
    and thr: "failure_count cb + int (count_failures cs) < failure_threshold cb"
    and reach: "failure_threshold cb \<le> failure_count cb + int (count_failures cs) + 1"
  shows "state (run_calls cb (cs @ [(t1, Raises e, t2)])) = Open \<and>
         failure_count (run_calls cb (cs @ [(t1, Raises e, t2)])) = failure_threshold cb \<and>
         failure_threshold (run_calls cb (cs @ [(t1, Raises e, t2)])) = failure_threshold cb \<and>
         recovery_timeout (run_calls cb (cs @ [(t1, Raises e, t2)])) = recovery_timeout cb \<and>
         last_failure_time (run_calls cb (cs @ [(t1, Raises e, t2)])) = Some t2"
proof -
  let ?mid = "run_calls cb cs"
  from run_calls_closed [OF closed thr]
  have mid: "state ?mid = Closed"
    "failure_count ?mid = failure_count cb + int (count_failures cs)"
    "failure_threshold ?mid = failure_threshold cb"
    "recovery_timeout ?mid = recovery_timeout cb"
    by simp_all
  have "run_calls cb (cs @ [(t1, Raises e, t2)]) = on_failure ?mid t2"
    by (simp add: run_calls_append call_closed_failure [OF mid(1)])
  then show ?thesis
    using mid thr reach by (simp add: on_failure_fields)
qed

text \<open>
  Claim C3. Take a breaker in the closed state with failure counter \<open>0\<close> and threshold
  at least \<open>1\<close>, and let \<open>failure_threshold\<close> operations fail one after the other
  through it, the last failure being recorded at a clock reading other than \<open>0.0\<close>
  (which Python treats as no reading at all). Then the breaker is open and holds that
  reading. While no more than \<open>recovery_timeout\<close> has elapsed since it, every call is
  rejected with \<^verbatim>\<open>CircuitBreakerOpen\<close> and changes nothing. Once more has elapsed, a
  call is admitted in state half-open: if the operation returns, the breaker is closed
  with counter \<open>0\<close>; if it raises, the breaker is open again and holds the new failure
  time.
\<close>

theorem circuit_breaker_cycle:
  fixes cs :: "(real \<times> ('a, 'e) outcome \<times> real) list"
  assumes closed: "state cb = Closed" and fresh: "failure_count cb = 0"
    and thr: "0 < failure_threshold cb"
    and len: "int (length cs) = failure_threshold cb"
    and fails: "\<forall>c\<in>set cs. is_failure c"
    and clock: "exit_time (last cs) \<noteq> 0"
  shows "state (run_calls cb cs) = Open \<and>
    last_failure_time (run_calls cb cs) = Some (exit_time (last cs)) \<and>
    (\<forall>now (func :: ('a, 'e) outcome) t.
       now - exit_time (last cs) \<le> recovery_timeout cb \<longrightarrow>
         call (run_calls cb cs) now func t = (run_calls cb cs, Inl CircuitBreakerOpen)) \<and>
    (\<forall>now. recovery_timeout cb < now - exit_time (last cs) \<longrightarrow>
         admit (run_calls cb cs) now = Some ((run_calls cb cs)\<lparr>state := HalfOpen\<rparr>)) \<and>
    (\<forall>now (r :: 'a) t. recovery_timeout cb < now - exit_time (last cs) \<longrightarrow>
         snd (call (run_calls cb cs) now (Returns r :: ('a, 'e) outcome) t) = Inr r \<and>
         state (fst (call (run_calls cb cs) now (Returns r :: ('a, 'e) outcome) t)) = Closed \<and>
         failure_count (fst (call (run_calls cb cs) now (Returns r :: ('a, 'e) outcome) t)) = 0) \<and>
    (\<forall>now (e :: 'e) t. recovery_timeout cb < now - exit_time (last cs) \<longrightarrow>
         snd (call (run_calls cb cs) now (Raises e :: ('a, 'e) outcome) t) = Inl (Raised e) \<and>
         state (fst (call (run_calls cb cs) now (Raises e :: ('a, 'e) outcome) t)) = Open \<and>
         last_failure_time (fst (call (run_calls cb cs) now (Raises e :: ('a, 'e) outcome) t))
           = Some t)"
proof -
  from thr len have ne: "cs \<noteq> []" by auto
  then obtain t1 func t2 where lst: "last cs = (t1, func, t2)"
    by (cases "last cs") auto
  from fails ne have "is_failure (last cs)" by simp
  with lst obtain e where func: "func = Raises e"
    by (cases func) auto
  from ne lst func have cs: "cs = butlast cs @ [(t1, Raises e, t2)]"
    by (metis append_butlast_last_id)
  have ex: "exit_time (last cs) = t2"
    by (simp add: lst exit_time_def)
  have "\<forall>c\<in>set (butlast cs). is_failure c"
    using fails by (meson in_set_butlastD)
  then have cnt: "count_failures (butlast cs) = length (butlast cs)"
    by (rule count_failures_all)
  have l: "int (length (butlast cs)) = failure_threshold cb - 1"
    using len ne by (cases cs rule: rev_cases) simp_all
  have a: "failure_count cb + int (count_failures (butlast cs)) < failure_threshold cb"
    using fresh cnt l by simp
  have b: "failure_threshold cb \<le> failure_count cb + int (count_failures (butlast cs)) + 1"
    using fresh cnt l by simp
  let ?o = "run_calls cb cs"
  from run_failures_opens [OF closed a b, of t1 e t2] cs
  have o: "state ?o = Open" "failure_count ?o = failure_threshold cb"
    "failure_threshold ?o = failure_threshold cb"
    "recovery_timeout ?o = recovery_timeout cb"
    "last_failure_time ?o = Some t2"
    by simp_all
  from clock ex have t2: "t2 \<noteq> 0" by simp
  have rej: "now - t2 \<le> recovery_timeout cb \<Longrightarrow> admit ?o now = None" for now
    using o by (simp add: admit_def)
  have adm: "recovery_timeout cb < now - t2 \<Longrightarrow>
      admit ?o now = Some (?o\<lparr>state := HalfOpen\<rparr>)" for now
    using o t2 by (simp add: admit_def)
  show ?thesis
    using o rej adm
    by (simp add: ex call_def on_success_def on_failure_fields)
qed


theorem circuit_breaker_cycle_witness:
  "state (CircuitBreaker_init 2 30) = Closed \<and> failure_count (CircuitBreaker_init 2 30) = 0 \<and>
   0 < failure_threshold (CircuitBreaker_init 2 30) \<and>
   list_all is_failure [(100, Raises ''e1'' :: (unit, string) outcome, 101),
                        (102, Raises ''e2'', 103)] \<and>
   state (run_calls (CircuitBreaker_init 2 30)
           [(100, Raises ''e1'' :: (unit, string) outcome, 101), (102, Raises ''e2'', 103)])
     = Open \<and>
   snd (call (run_calls (CircuitBreaker_init 2 30)
           [(100, Raises ''e1'' :: (unit, string) outcome, 101), (102, Raises ''e2'', 103)])
         110 (Returns () :: (unit, string) outcome) 111) = Inl CircuitBreakerOpen \<and>
   state (fst (call (run_calls (CircuitBreaker_init 2 30)
           [(100, Raises ''e1'' :: (unit, string) outcome, 101), (102, Raises ''e2'', 103)])
         140 (Returns () :: (unit, string) outcome) 141)) = Closed \<and>
   state (fst (call (run_calls (CircuitBreaker_init 2 30)
           [(100, Raises ''e1'' :: (unit, string) outcome, 101), (102, Raises ''e2'', 103)])
         140 (Raises ''e3'' :: (unit, string) outcome) 141)) = Open"
proof -
  let ?cb = "CircuitBreaker_init 2 30"
  let ?cs = "[(100, Raises ''e1'' :: (unit, string) outcome, 101), (102, Raises ''e2'', 103)]"
  have h1: "state ?cb = Closed" and h2: "failure_count ?cb = 0"
    and h3: "0 < failure_threshold ?cb" and h4: "int (length ?cs) = failure_threshold ?cb"
    by (simp_all add: CircuitBreaker_init_def)
  have h5: "\<forall>c\<in>set ?cs. is_failure c" by simp
  have h6: "exit_time (last ?cs) \<noteq> 0" by (simp add: exit_time_def)
  note cyc = circuit_breaker_cycle [OF h1 h2 h3 h4 h5 h6]
  have early: "110 - exit_time (last ?cs) \<le> recovery_timeout ?cb"
    and late: "recovery_timeout ?cb < 140 - exit_time (last ?cs)"
    by (simp_all add: exit_time_def CircuitBreaker_init_def)
  note open_now = cyc [THEN conjunct1]
  note reject = cyc [THEN conjunct2, THEN conjunct2, THEN conjunct1, rule_format]
  note trial_ok = cyc [THEN conjunct2, THEN conjunct2, THEN conjunct2, THEN conjunct2,
      THEN conjunct1, rule_format]
  note trial_bad = cyc [THEN conjunct2, THEN conjunct2, THEN conjunct2, THEN conjunct2,
      THEN conjunct2, rule_format]
  have c1: "state (run_calls ?cb ?cs) = Open" by (rule open_now)
  let ?ok = "Returns () :: (unit, string) outcome"
  let ?bad = "Raises ''e3'' :: (unit, string) outcome"
  have "call (run_calls ?cb ?cs) 110 ?ok 111 = (run_calls ?cb ?cs, Inl CircuitBreakerOpen)"
    by (rule reject [OF early])
  then have c2: "snd (call (run_calls ?cb ?cs) 110 ?ok 111) = Inl CircuitBreakerOpen"
    by simp
  have c3: "state (fst (call (run_calls ?cb ?cs) 140 ?ok 141)) = Closed"
    using trial_ok [OF late, of "()" 141] by blast
  have c4: "state (fst (call (run_calls ?cb ?cs) 140 ?bad 141)) = Open"
    using trial_bad [OF late, of "''e3''" 141] by blast
  from h1 h2 h3 h5 c1 c2 c3 c4 show ?thesis
    by (simp only: list_all_iff simp_thms)
qed

text \<open>
  Claim C9. A successful operation through a closed breaker leaves the whole breaker
  unchanged. A successful call changes the counter only when it ran half-open, and then
  the breaker ends closed with counter \<open>0\<close>. So from a closed breaker, any calls
  admitted while closed move only the counter, by the number of failures among them,
  however many successes lie between; the failure that brings the counter to the
  threshold opens the breaker.
\<close>

theorem closed_success_keeps_counter:
  fixes cs :: "(real \<times> ('a, 'e) outcome \<times> real) list"
  shows "(state cb = Closed \<longrightarrow>
       call cb t (Returns r :: ('a, 'e) outcome) t' = (cb, Inr r)) \<and>
   (failure_count (fst (call cb t (Returns r :: ('a, 'e) outcome) t')) \<noteq> failure_count cb \<longrightarrow>
       (\<exists>cb1. admit cb t = Some cb1 \<and> state cb1 = HalfOpen) \<and>
       state (fst (call cb t (Returns r :: ('a, 'e) outcome) t')) = Closed \<and>
       failure_count (fst (call cb t (Returns r :: ('a, 'e) outcome) t')) = 0) \<and>
   (state cb = Closed \<and>
    failure_count cb + int (count_failures cs) < failure_threshold cb \<longrightarrow>
       state (run_calls cb cs) = Closed \<and>
       failure_count (run_calls cb cs) = failure_count cb + int (count_failures cs)) \<and>
   (state cb = Closed \<and>
    failure_count cb + int (count_failures cs) + 1 = failure_threshold cb \<longrightarrow>
       state (run_calls cb (cs @ [(t1, Raises e, t2)])) = Open)"
proof (intro conjI impI)
  assume "state cb = Closed"
  then show "call cb t (Returns r :: ('a, 'e) outcome) t' = (cb, Inr r)"
    by (rule call_closed_success)
next
  assume ch: "failure_count (fst (call cb t (Returns r :: ('a, 'e) outcome) t')) \<noteq> failure_count cb"
  then obtain cb1 where adm: "admit cb t = Some cb1"
    by (cases "admit cb t") (auto simp add: call_def)
  with ch have half: "state cb1 = HalfOpen"
    by (auto simp add: call_def on_success_def admit_def split: if_splits)
  from adm half show "\<exists>cb1. admit cb t = Some cb1 \<and> state cb1 = HalfOpen" by blast
  from adm half
  show "state (fst (call cb t (Returns r :: ('a, 'e) outcome) t')) = Closed"
    by (simp add: call_def on_success_def)
  from adm half
  show "failure_count (fst (call cb t (Returns r :: ('a, 'e) outcome) t')) = 0"
    by (simp add: call_def on_success_def)
next
  assume a: "state cb = Closed \<and>
    failure_count cb + int (count_failures cs) < failure_threshold cb"
  then show "state (run_calls cb cs) = Closed"
    using run_calls_closed [of cb cs] by blast
  from a show "failure_count (run_calls cb cs) = failure_count cb + int (count_failures cs)"
    using run_calls_closed [of cb cs] by blast
next
  assume a: "state cb = Closed \<and>
    failure_count cb + int (count_failures cs) + 1 = failure_threshold cb"
  then show "state (run_calls cb (cs @ [(t1, Raises e, t2)])) = Open"
    using run_failures_opens [of cb cs t1 e t2] by simp
qed

theorem closed_success_keeps_counter_witness:
  "state (CircuitBreaker_init 2 30) = Closed \<and>
   failure_count (CircuitBreaker_init 2 30)
     + int (count_failures [(1, Raises ''e1'' :: (unit, string) outcome, 2),
                            (3, Returns (), 4)]) + 1
     = failure_threshold (CircuitBreaker_init 2 30) \<and>
   state (run_calls (CircuitBreaker_init 2 30)
     ([(1, Raises ''e1'' :: (unit, string) outcome, 2), (3, Returns (), 4)]
        @ [(5, Raises ''e2'', 6)])) = Open"
proof -
  let ?cb = "CircuitBreaker_init 2 30"
  let ?cs = "[(1, Raises ''e1'' :: (unit, string) outcome, 2), (3, Returns (), 4)]"
  have h: "state ?cb = Closed \<and>
      failure_count ?cb + int (count_failures ?cs) + 1 = failure_threshold ?cb"
    by (simp add: CircuitBreaker_init_def count_failures_def)
  from closed_success_keeps_counter [of ?cb _ _ _ ?cs 5 "''e2''" 6] h
  have "state (run_calls ?cb (?cs @ [(5, Raises ''e2'', 6)])) = Open"
    by blast
  with h show ?thesis by blast
qed

section \<open>Properties of the TTL cache\<close>

lemma write_local_fields:
  "local_cache (write_local self k v x) = AList.update k v (local_cache self)"
  "local_ttl (write_local self k v x) = AList.update k x (local_ttl self)"
  "local_max_size (write_local self k v x) = local_max_size self"
  by (simp_all add: write_local_def)

lemma oldest_key_update: "\<exists>j. oldest_key (AList.update k x al) = Some j"
  by (cases "AList.update k x al") (simp_all add: oldest_key_def)

lemma evict_write_local:
  "evict (write_local self k v x) =
     (if int (length (AList.update k v (local_cache self))) > local_max_size self
      then Inr ((write_local self k v x)
             \<lparr>local_cache := AList.delete (the (oldest_key (AList.update k x (local_ttl self))))
                               (AList.update k v (local_cache self)),
              local_ttl := AList.delete (the (oldest_key (AList.update k x (local_ttl self))))
                               (AList.update k x (local_ttl self))\<rparr>)
      else Inr (write_local self k v x))"
proof -
  obtain j where "oldest_key (AList.update k x (local_ttl self)) = Some j"
    using oldest_key_update by blast
  then show ?thesis
    by (simp add: evict_def write_local_fields)
qed

text \<open>
  Claim C5, as the code has it. \<^verbatim>\<open>set\<close> never lets an exception of the remote store
  out. When a remote client is configured and its write returns, \<^verbatim>\<open>set\<close> returns at
  once and leaves the local map as it was. Otherwise (no client, or the write raised)
  it writes the key with the value and the expiry \<open>now + ttl\<close> into the local map, where
  a \<open>ttl\<close> of \<^verbatim>\<open>None\<close> or \<open>0\<close> stands for the default; the entry is there afterwards
  unless the map then exceeds its capacity and the key itself has the smallest expiry, in
  which case the key is the entry evicted.
\<close>

theorem cache_set_local_write:
  fixes self :: "'v AsyncCache" and setex :: "(unit, 'e) outcome"
  shows
  "(\<exists>c. cache_set self k v ttl setex now = Inr c) \<and>
   (remote_written self setex \<longrightarrow> cache_set self k v ttl setex now = Inr self) \<and>
   (\<not> remote_written self setex \<and>
    (int (length (AList.update k v (local_cache self))) \<le> local_max_size self \<or>
     oldest_key (AList.update k (now + real_of_int (effective_ttl self ttl)) (local_ttl self))
       \<noteq> Some k) \<longrightarrow>
      (\<exists>c. cache_set self k v ttl setex now = Inr c \<and>
           map_of (local_cache c) k = Some v \<and>
           map_of (local_ttl c) k = Some (now + real_of_int (effective_ttl self ttl)))) \<and>
   (\<not> remote_written self setex \<and>
    int (length (AList.update k v (local_cache self))) > local_max_size self \<and>
    oldest_key (AList.update k (now + real_of_int (effective_ttl self ttl)) (local_ttl self))
       = Some k \<longrightarrow>
      (\<exists>c. cache_set self k v ttl setex now = Inr c \<and>
           map_of (local_cache c) k = None \<and> map_of (local_ttl c) k = None))"
proof -
  let ?x = "now + real_of_int (effective_ttl self ttl)"
  obtain j where j: "oldest_key (AList.update k ?x (local_ttl self)) = Some j"
    using oldest_key_update by blast
  show ?thesis
    by (simp add: cache_set_def evict_write_local write_local_fields j
        AList.update_conv' AList.delete_conv')
qed

theorem cache_set_local_write_witness:
  "\<not> remote_written (AsyncCache_init False 60 :: int AsyncCache)
       (Returns () :: (unit, string) outcome) \<and>
   int (length (AList.update ''k'' (7::int)
          (local_cache (AsyncCache_init False 60 :: int AsyncCache))))
     \<le> local_max_size (AsyncCache_init False 60 :: int AsyncCache) \<and>
   (\<exists>c. cache_set (AsyncCache_init False 60 :: int AsyncCache) ''k'' 7 (Some 30)
           (Returns () :: (unit, string) outcome) 1000 = Inr c \<and>
        map_of (local_cache c) ''k'' = Some 7 \<and>
        map_of (local_ttl c) ''k'' = Some 1030)"
proof -
  let ?c = "AsyncCache_init False 60 :: int AsyncCache"
  let ?r = "Returns () :: (unit, string) outcome"
  have h1: "\<not> remote_written ?c ?r"
    by (simp add: remote_written_def AsyncCache_init_def)
  have h2: "int (length (AList.update ''k'' (7::int) (local_cache ?c))) \<le> local_max_size ?c"
    by (simp add: AsyncCache_init_def)
  have t: "now + real_of_int (effective_ttl ?c (Some 30)) = 1030" if "now = 1000" for now :: real
    using that by (simp add: effective_ttl_def)
  from cache_set_local_write [of ?c "''k''" 7 "Some 30" ?r 1000] h1 h2
  have "\<exists>c. cache_set ?c ''k'' 7 (Some 30) ?r 1000 = Inr c \<and>
        map_of (local_cache c) ''k'' = Some 7 \<and>
        map_of (local_ttl c) ''k'' = Some (1000 + real_of_int (effective_ttl ?c (Some 30)))"
    by blast
  then have "\<exists>c. cache_set ?c ''k'' 7 (Some 30) ?r 1000 = Inr c \<and>
        map_of (local_cache c) ''k'' = Some 7 \<and>
        map_of (local_ttl c) ''k'' = Some 1030"
    by (simp only: t [OF refl])
  with h1 h2 show ?thesis by blast
qed

text \<open>
  The claim as stated fails where the remote write succeeds: with a configured client
  whose write returns, the local map is still empty after \<^verbatim>\<open>set("k", 7, 30)\<close>. And a
  \<open>ttl\<close> of \<open>0\<close> gives the expiry \<open>now + default_ttl\<close>.
\<close>

theorem cache_set_remote_success_skips_local:
  "cache_set (AsyncCache_init True 60 :: int AsyncCache) ''k'' 7 (Some 30)
      (Returns () :: (unit, string) outcome) 1000
     = Inr (AsyncCache_init True 60) \<and>
   map_of (local_cache (AsyncCache_init True 60 :: int AsyncCache)) ''k'' = None \<and>
   cache_set (AsyncCache_init False 60 :: int AsyncCache) ''k'' 7 (Some 0)
      (Returns () :: (unit, string) outcome) 1000
     = Inr ((AsyncCache_init False 60)\<lparr>local_cache := [(''k'', 7)],
                                        local_ttl := [(''k'', 1060)]\<rparr>)"
  by (simp add: cache_set_def remote_written_def AsyncCache_init_def evict_def
      write_local_def effective_ttl_def)

section \<open>Properties of the rounding\<close>

lemma rne_error: "\<bar>of_int (rne y) - y\<bar> \<le> 1/2"
  unfolding rne_def Let_def by (auto; linarith)

lemma rne_of_int: "rne (of_int k) = k"
  unfolding rne_def Let_def by simp

lemma rne_mono: "x \<le> y \<Longrightarrow> rne x \<le> rne y"
proof -
  assume xy: "x \<le> y"
  have fl: "\<lfloor>x\<rfloor> \<le> \<lfloor>y\<rfloor>" using xy by (rule floor_mono)
  have lo: "\<And>z. \<lfloor>z\<rfloor> \<le> rne z" unfolding rne_def Let_def by auto
  have hi: "\<And>z. rne z \<le> \<lfloor>z\<rfloor> + 1" unfolding rne_def Let_def by auto
  show ?thesis
  proof (cases "\<lfloor>x\<rfloor> = \<lfloor>y\<rfloor>")
    case True
    then show ?thesis using xy unfolding rne_def Let_def by auto
  next
    case False
    then have "\<lfloor>x\<rfloor> + 1 \<le> \<lfloor>y\<rfloor>" using fl by linarith
    then show ?thesis using lo [of y] hi [of x] by linarith
  qed
qed

lemma rne_minus: "rne (- y) = - rne y"
proof (cases "y = of_int \<lfloor>y\<rfloor>")
  case True
  then obtain k where "y = of_int k" ..
  then show ?thesis using rne_of_int [of k] rne_of_int [of "- k"] by simp
next
  case False
  then have f: "\<lfloor>- y\<rfloor> = - \<lfloor>y\<rfloor> - 1"
    by (metis ceiling_altdef ceiling_def diff_minus_eq_add minus_diff_eq uminus_add_conv_diff add.inverse_inverse)
  show ?thesis unfolding rne_def Let_def f by (auto; linarith)
qed

lemma binade_from_spec:
  "e - int n \<le> binade_from n e x \<and> binade_from n e x \<le> e \<and>
   (e - int n < binade_from n e x \<longrightarrow> 2 powi binade_from n e x \<le> x) \<and>
   (binade_from n e x < e \<longrightarrow> x < 2 powi (binade_from n e x + 1))"
proof (induction n arbitrary: e)
  case 0
  show ?case by simp
next
  case (Suc n)
  show ?case
  proof (cases "2 powi e \<le> x")
    case True
    then show ?thesis by simp
  next
    case False
    let ?r = "binade_from n (e - 1) x"
    have r: "binade_from (Suc n) e x = ?r" using False by simp
    note ih = Suc.IH [of "e - 1"]
    have up: "?r < e \<longrightarrow> x < 2 powi (?r + 1)"
    proof
      assume "?r < e"
      show "x < 2 powi (?r + 1)"
      proof (cases "?r < e - 1")
        case True
        then show ?thesis using ih by blast
      next
        case False
        then have "?r = e - 1" using ih by linarith
        then show ?thesis using \<open>\<not> 2 powi e \<le> x\<close> by simp
      qed
    qed
    show ?thesis unfolding r using ih up by auto
  qed
qed

lemma binade_ge: "- 1022 \<le> binade x"
  using binade_from_spec [of 1023 2045 "\<bar>x\<bar>"] unfolding binade_def by simp

lemma binade_le: "binade x \<le> 1023"
  using binade_from_spec [of 1023 2045 "\<bar>x\<bar>"] unfolding binade_def by simp

lemma binade_lower: "- 1022 < binade x \<Longrightarrow> 2 powi binade x \<le> \<bar>x\<bar>"
  using binade_from_spec [of 1023 2045 "\<bar>x\<bar>"] unfolding binade_def by simp

lemma binade_upper: "binade x < 1023 \<Longrightarrow> \<bar>x\<bar> < 2 powi (binade x + 1)"
  using binade_from_spec [of 1023 2045 "\<bar>x\<bar>"] unfolding binade_def by simp

lemma binade_leI:
  assumes "\<bar>x\<bar> < 2 powi (b + 1)" and "- 1022 \<le> b"
  shows "binade x \<le> b"
proof (rule ccontr)
  assume "\<not> binade x \<le> b"
  then have gt: "b + 1 \<le> binade x" by simp
  then have "2 powi binade x \<le> \<bar>x\<bar>" using assms(2) by (intro binade_lower) linarith
  moreover have "(2::real) powi (b + 1) \<le> 2 powi binade x"
    using gt by (intro power_int_increasing) simp_all
  ultimately show False using assms(1) by linarith
qed

lemma binade_geI:
  assumes "2 powi b \<le> \<bar>x\<bar>" and "b \<le> 1023"
  shows "b \<le> binade x"
proof (rule ccontr)
  assume "\<not> b \<le> binade x"
  then have lt: "binade x + 1 \<le> b" by simp
  then have "\<bar>x\<bar> < 2 powi (binade x + 1)" using assms(2) by (intro binade_upper) linarith
  moreover have "(2::real) powi (binade x + 1) \<le> 2 powi b"
    using lt by (intro power_int_increasing) simp_all
  ultimately show False using assms(1) by linarith
qed

lemma binade_eqI:
  "- 1022 \<le> b \<Longrightarrow> b \<le> 1023 \<Longrightarrow> 2 powi b \<le> \<bar>x\<bar> \<Longrightarrow> \<bar>x\<bar> < 2 powi (b + 1) \<Longrightarrow> binade x = b"
  using binade_leI [of x b] binade_geI [of b x] by simp

lemma binade_subnormal: "\<bar>x\<bar> < 2 powi (- 1021) \<Longrightarrow> binade x = - 1022"
  using binade_leI [of x "- 1022"] binade_ge [of x] by simp

lemma binade_minus: "binade (- x) = binade x"
  unfolding binade_def by simp

lemma binade_mono: "\<bar>x\<bar> \<le> \<bar>y\<bar> \<Longrightarrow> binade x \<le> binade y"
proof (cases "- 1022 < binade x")
  case True
  assume "\<bar>x\<bar> \<le> \<bar>y\<bar>"
  then have "2 powi binade x \<le> \<bar>y\<bar>" using binade_lower [OF True] by linarith
  then show ?thesis using binade_le [of x] by (intro binade_geI)
next
  case False
  then show ?thesis using binade_ge [of x] binade_ge [of y] by linarith
qed

lemma ulp_pos: "0 < ulp x"
  unfolding ulp_def by (simp add: zero_less_power_int)

lemma ulp_minus: "ulp (- x) = ulp x"
  unfolding ulp_def binade_minus ..

lemma fl_zero: "fl 0 = 0"
  unfolding fl_def using rne_of_int [of 0] by simp

lemma fl_minus: "fl (- x) = - fl x"
  unfolding fl_def ulp_minus using rne_minus [of "x / ulp x"] by simp

lemma fl_nonneg: "0 \<le> x \<Longrightarrow> 0 \<le> fl x"
proof -
  assume "0 \<le> x"
  then have "0 \<le> x / ulp x" using ulp_pos [of x] by simp
  then have "rne 0 \<le> rne (x / ulp x)" by (rule rne_mono)
  then have "0 \<le> rne (x / ulp x)" using rne_of_int [of 0] by simp
  then show ?thesis unfolding fl_def using ulp_pos [of x] by simp
qed

lemma fl_error: "\<bar>fl x - x\<bar> \<le> ulp x / 2"
proof -
  have "fl x - x = (of_int (rne (x / ulp x)) - x / ulp x) * ulp x"
    unfolding fl_def using ulp_pos [of x] by (simp add: field_simps)
  then have "\<bar>fl x - x\<bar> = \<bar>of_int (rne (x / ulp x)) - x / ulp x\<bar> * ulp x"
    using ulp_pos [of x] by (simp add: abs_mult)
  also have "\<dots> \<le> (1/2) * ulp x"
    using rne_error [of "x / ulp x"] ulp_pos [of x] by (intro mult_right_mono) simp_all
  finally show ?thesis by simp
qed

lemma ulp_bound: "ulp x / 2 \<le> \<bar>x\<bar> * eps + eta"
proof (cases "- 1022 < binade x")
  case True
  have "ulp x / 2 = 2 powi binade x * 2 powi (- 53)"
    unfolding ulp_def by (simp add: power_int_diff power_int_minus field_simps)
  also have "\<dots> \<le> \<bar>x\<bar> * 2 powi (- 53)"
    using binade_lower [OF True] by (intro mult_right_mono) simp_all
  finally have "ulp x / 2 \<le> \<bar>x\<bar> * eps" unfolding eps_def .
  moreover have "0 \<le> eta" unfolding eta_def by simp
  ultimately show ?thesis by linarith
next
  case False
  then have "binade x = - 1022" using binade_ge [of x] by linarith
  then have "ulp x = 2 powi (- 1074)" unfolding ulp_def by simp
  also have "\<dots> = 2 * 2 powi (- 1075)"
    using power_int_add [of "2::real" 1 "- 1075"] by simp
  finally have "ulp x / 2 = eta" unfolding eta_def by simp
  moreover have "0 \<le> \<bar>x\<bar> * eps" unfolding eps_def by simp
  ultimately show ?thesis by linarith
qed

lemma fl_upper: "0 \<le> x \<Longrightarrow> fl x \<le> x + x * eps + eta"
  using fl_error [of x] ulp_bound [of x] by linarith

lemma fl_lower: "0 \<le> x \<Longrightarrow> x - x * eps - eta \<le> fl x"
  using fl_error [of x] ulp_bound [of x] by linarith

lemma fl_bin_lower:
  assumes "0 \<le> x" and "- 1022 < binade x"
  shows "2 powi binade x \<le> fl x"
proof -
  have "2 powi binade x \<le> x" using binade_lower [OF assms(2)] assms(1) by simp
  then have "2 powi binade x / ulp x \<le> x / ulp x"
    using ulp_pos [of x] by (simp add: divide_right_mono)
  moreover have "2 powi binade x / ulp x = of_int (2 ^ 52)"
    unfolding ulp_def by (simp add: power_int_diff)
  ultimately have "rne (of_int (2 ^ 52)) \<le> rne (x / ulp x)" by (intro rne_mono) simp
  then have "of_int (2 ^ 52) * ulp x \<le> fl x"
    unfolding fl_def rne_of_int using ulp_pos [of x] by (intro mult_right_mono) simp_all
  moreover have "of_int (2 ^ 52) * ulp x = 2 powi binade x"
    unfolding ulp_def by (simp add: power_int_diff)
  ultimately show ?thesis by simp
qed

lemma fl_bin_upper:
  assumes "0 \<le> x" and "binade x < 1023"
  shows "fl x \<le> 2 powi (binade x + 1)"
proof -
  have "x \<le> 2 powi (binade x + 1)" using binade_upper [OF assms(2)] assms(1) by simp
  then have "x / ulp x \<le> 2 powi (binade x + 1) / ulp x"
    using ulp_pos [of x] by (simp add: divide_right_mono)
  moreover have "2 powi (binade x + 1) / ulp x = of_int (2 ^ 53)"
    unfolding ulp_def by (simp add: power_int_diff power_int_add)
  ultimately have "rne (x / ulp x) \<le> rne (of_int (2 ^ 53))" by (intro rne_mono) simp
  then have "fl x \<le> of_int (2 ^ 53) * ulp x"
    unfolding fl_def rne_of_int using ulp_pos [of x] by (intro mult_right_mono) simp_all
  moreover have "of_int (2 ^ 53) * ulp x = 2 powi (binade x + 1)"
    unfolding ulp_def by (simp add: power_int_diff power_int_add)
  ultimately show ?thesis by simp
qed

lemma fl_mono_nonneg:
  assumes "0 \<le> x" and "x \<le> y"
  shows "fl x \<le> fl y"
proof (cases "binade x = binade y")
  case True
  then have u: "ulp x = ulp y" unfolding ulp_def by simp
  have "x / ulp y \<le> y / ulp y" using assms(2) ulp_pos [of y] by (simp add: divide_right_mono)
  then have "rne (x / ulp y) \<le> rne (y / ulp y)" by (rule rne_mono)
  then show ?thesis unfolding fl_def u using ulp_pos [of y] by (intro mult_right_mono) simp_all
next
  case False
  have "binade x \<le> binade y" using assms by (intro binade_mono) simp
  then have lt: "binade x < binade y" using False by simp
  have "fl x \<le> 2 powi (binade x + 1)"
    using assms(1) lt binade_le [of y] by (intro fl_bin_upper) simp_all
  also have "\<dots> \<le> 2 powi binade y"
    using lt by (intro power_int_increasing) simp_all
  also have "\<dots> \<le> fl y"
    using assms lt binade_ge [of x] by (intro fl_bin_lower) simp_all
  finally show ?thesis .
qed

lemma fl_mono: "x \<le> y \<Longrightarrow> fl x \<le> fl y"
proof -
  assume xy: "x \<le> y"
  consider "0 \<le> x" | "x < 0" "0 \<le> y" | "y < 0" using xy by linarith
  then show ?thesis
  proof cases
    case 1
    then show ?thesis using xy by (rule fl_mono_nonneg)
  next
    case 2
    have "fl x = - fl (- x)" using fl_minus [of x] by simp
    moreover have "0 \<le> fl (- x)" using 2 by (intro fl_nonneg) simp
    moreover have "0 \<le> fl y" using 2 by (intro fl_nonneg)
    ultimately show ?thesis by simp
  next
    case 3
    have "fl (- y) \<le> fl (- x)" using 3 xy by (intro fl_mono_nonneg) simp_all
    then show ?thesis unfolding fl_minus by simp
  qed
qed

lemma fl_grid: "binade y = b \<Longrightarrow> y = of_int k * 2 powi (b - 52) \<Longrightarrow> fl y = y"
  unfolding fl_def ulp_def using rne_of_int [of k] by simp

lemma fl_idem_nonneg:
  assumes "0 \<le> x"
  shows "fl (fl x) = fl x"
proof -
  let ?b = "binade x"
  let ?m = "rne (x / ulp x)"
  have y: "fl x = of_int ?m * 2 powi (?b - 52)" unfolding fl_def ulp_def ..
  have nn: "0 \<le> fl x" using assms by (rule fl_nonneg)
  show ?thesis
  proof (cases "?b < 1023 \<and> fl x = 2 powi (?b + 1)")
    case True
    then have b1: "binade (fl x) = ?b + 1"
      using binade_ge [of x] by (intro binade_eqI) (simp_all add: power_int_strict_increasing)
    have "fl x = of_int (2 ^ 52) * 2 powi (?b + 1 - 52)"
      using True by (simp add: power_int_diff power_int_add)
    then show ?thesis using b1 by (intro fl_grid)
  next
    case False
    have "binade (fl x) = ?b"
    proof (cases "?b < 1023")
      case True
      then have "fl x \<le> 2 powi (?b + 1)" using assms by (intro fl_bin_upper)
      then have lt: "\<bar>fl x\<bar> < 2 powi (?b + 1)" using False True nn by simp
      have le: "binade (fl x) \<le> ?b" using lt binade_ge [of x] by (rule binade_leI)
      have "?b \<le> binade (fl x)"
      proof (cases "- 1022 < ?b")
        case True
        then have "2 powi ?b \<le> \<bar>fl x\<bar>" using fl_bin_lower [OF assms True] nn by simp
        then show ?thesis using binade_le [of x] by (rule binade_geI)
      next
        case False
        then show ?thesis using binade_ge [of "fl x"] by linarith
      qed
      then show ?thesis using le by simp
    next
      case False
      then have b: "?b = 1023" using binade_le [of x] by linarith
      then have "2 powi ?b \<le> \<bar>fl x\<bar>" using fl_bin_lower [OF assms] nn by simp
      then have "?b \<le> binade (fl x)" using binade_le [of x] by (rule binade_geI)
      then show ?thesis using binade_le [of "fl x"] b by linarith
    qed
    then show ?thesis using y by (rule fl_grid)
  qed
qed

lemma fl_idem: "fl (fl x) = fl x"
proof (cases "0 \<le> x")
  case True
  then show ?thesis by (rule fl_idem_nonneg)
next
  case False
  then have "fl (fl (- x)) = fl (- x)" by (intro fl_idem_nonneg) simp
  then show ?thesis unfolding fl_minus by simp
qed

lemma fl_eqI:
  "- 1022 \<le> b \<Longrightarrow> b \<le> 1023 \<Longrightarrow> 2 powi b \<le> \<bar>x\<bar> \<Longrightarrow> \<bar>x\<bar> < 2 powi (b + 1) \<Longrightarrow>
   rne (x / 2 powi (b - 52)) = m \<Longrightarrow> fl x = of_int m * 2 powi (b - 52)"
  unfolding fl_def ulp_def using binade_eqI [of b x] by simp


section \<open>Properties of the risk manager\<close>

lemma eps_val: "eps = 1 / 9007199254740992"
  by (simp add: eps_def power_int_minus)

lemma eta_pos: "0 < eta"
  by (simp add: eta_def)

lemma eta_32: "2 powi (- 1070) = 32 * eta"
  using power_int_add [of "2::real" 5 "- 1075"] by (simp add: eta_def)

lemma eps_16: "2 powi (- 49) = 16 * eps"
  using power_int_add [of "2::real" 4 "- 53"] by (simp add: eps_def)

lemma fl_pos_arg: "0 < fl x \<Longrightarrow> 0 < x"
  using fl_mono [of x 0] fl_zero by (cases "0 < x") auto

lemma fl_mono_rev: "fl x < fl y \<Longrightarrow> x < y"
  using fl_mono [of y x] by (cases "x < y") auto

lemma py_int_ge_1: "1 \<le> x \<Longrightarrow> 1 \<le> py_int x"
  by (simp add: py_int_def le_floor_iff)

lemma py_int_pos_le: "1 \<le> py_int x \<Longrightarrow> real_of_int (py_int x) \<le> x"
proof -
  assume a: "1 \<le> py_int x"
  have "0 \<le> x"
  proof (rule ccontr)
    assume "\<not> 0 \<le> x"
    then have "x < 0" by simp
    then have "\<lceil>x\<rceil> \<le> 0" by (simp add: ceiling_le_iff)
    with \<open>x < 0\<close> a show False by (simp add: py_int_def)
  qed
  then show ?thesis by (simp add: py_int_def)
qed

lemma arith_cost:
  fixes qe c x ne h ee :: real
  assumes "qe \<le> c + c * eps + ee" "ee \<le> h * 100" "c \<le> x * 100 + x * 100 * eps + h"
    "ne \<le> qe" "0 < x" "0 < c" "0 < h"
  shows "ne / 100 \<le> x * (1 + 3 * eps) + 2 * h"
  using assms unfolding eps_val by (simp add: field_simps)

lemma arith_exposure:
  fixes fe ne ee h t c0 :: real
  assumes "fe \<le> ne + ne * eps + ee" "ee \<le> h * 100" "t \<le> fe + fe * eps + h"
    "c0 \<le> t / 100 + t / 100 * eps + h" "0 \<le> ne" "0 \<le> t" "0 \<le> fe" "0 < h"
  shows "c0 \<le> ne / 100 * (1 + 4 * eps) + 3 * h"
  using assms unfolding eps_val by (simp add: field_simps)

lemma arith_reduced:
  fixes k1 av c0 k0 am h :: real
  assumes "k1 \<le> av * (1 + 3 * eps) + 2 * h" "av \<le> c0" "k0 \<le> am * (1 + 3 * eps) + 2 * h"
    "c0 \<le> k0 * (1 + 4 * eps) + 3 * h" "0 < am" "0 < av" "0 < h"
  shows "k1 \<le> am * (1 + 11 * eps) + 8 * h"
  using assms unfolding eps_val by (simp add: field_simps)

lemma arith_direct:
  fixes k0 am h :: real
  assumes "k0 \<le> am * (1 + 3 * eps) + 2 * h" "0 < am" "0 < h"
  shows "k0 \<le> am * (1 + 11 * eps) + 8 * h"
  using assms unfolding eps_val by (simp add: field_simps)

lemma contracts_cost_le:
  assumes e: "0 < e" "e < 100" and n: "1 \<le> py_int (fl (fl (x * 100) / e))"
  shows "real_of_int (py_int (fl (fl (x * 100) / e))) * e / 100 \<le> x * (1 + 3 * eps) + 2 * eta"
    and "0 < x"
proof -
  let ?c = "fl (x * 100)"
  let ?q = "fl (?c / e)"
  have nq: "real_of_int (py_int ?q) \<le> ?q" using n by (rule py_int_pos_le)
  have "0 < ?q" using nq n by linarith
  then have ce: "0 < ?c / e" by (rule fl_pos_arg)
  then have c: "0 < ?c" using e(1) by (simp add: zero_less_divide_iff)
  then have "0 < x * 100" by (rule fl_pos_arg)
  then show x: "0 < x" by simp
  have q: "?q \<le> ?c / e + ?c / e * eps + eta" using ce by (intro fl_upper) simp
  have "?q * e \<le> (?c / e + ?c / e * eps + eta) * e"
    using q e(1) by (intro mult_right_mono) simp_all
  also have "\<dots> = ?c + ?c * eps + eta * e" using e(1) by (simp add: field_simps)
  finally have qe: "?q * e \<le> ?c + ?c * eps + eta * e" .
  have ee: "eta * e \<le> eta * 100" using e(2) eta_pos by (intro mult_left_mono) simp_all
  have cx: "?c \<le> x * 100 + x * 100 * eps + eta" using x by (intro fl_upper) simp
  have ne: "real_of_int (py_int ?q) * e \<le> ?q * e"
    using nq e(1) by (intro mult_right_mono) simp_all
  show "real_of_int (py_int ?q) * e / 100 \<le> x * (1 + 3 * eps) + 2 * eta"
    using qe ee cx ne x c eta_pos by (rule arith_cost)
qed

lemma contracts_exposure_le:
  assumes e: "0 < e" "e < 100" and n: "0 \<le> n"
  shows "fl (fl (float_of_int n * e) / 100)
           \<le> real_of_int n * e / 100 * (1 + 4 * eps) + 3 * eta"
proof -
  let ?fn = "float_of_int n"
  let ?t = "fl (?fn * e)"
  have fn0: "0 \<le> ?fn" unfolding float_of_int_def using n by (intro fl_nonneg) simp
  have fn: "?fn \<le> real_of_int n + real_of_int n * eps + eta"
    unfolding float_of_int_def using n by (intro fl_upper) simp
  have "?fn * e \<le> (real_of_int n + real_of_int n * eps + eta) * e"
    using fn e(1) by (intro mult_right_mono) simp_all
  also have "\<dots> = real_of_int n * e + real_of_int n * e * eps + eta * e"
    by (simp add: algebra_simps)
  finally have fne: "?fn * e \<le> real_of_int n * e + real_of_int n * e * eps + eta * e" .
  have ee: "eta * e \<le> eta * 100" using e(2) eta_pos by (intro mult_left_mono) simp_all
  have p0: "0 \<le> ?fn * e" using fn0 e(1) by simp
  have t: "?t \<le> ?fn * e + ?fn * e * eps + eta" using p0 by (rule fl_upper)
  have t0: "0 \<le> ?t" using p0 by (rule fl_nonneg)
  have c: "fl (?t / 100) \<le> ?t / 100 + ?t / 100 * eps + eta" using t0 by (intro fl_upper) simp
  have ne0: "0 \<le> real_of_int n * e" using n e(1) by simp
  show ?thesis
    using fne ee t c ne0 t0 p0 eta_pos by (rule arith_exposure)
qed

lemma contracts_exposure_pos:
  assumes e: "0 < e" and c: "0 < fl (fl (float_of_int n * e) / 100)"
  shows "1 \<le> n"
proof (rule ccontr)
  assume "\<not> 1 \<le> n"
  then have "real_of_int n \<le> 0" by simp
  then have "fl (real_of_int n) \<le> fl 0" by (rule fl_mono)
  then have "float_of_int n * e \<le> 0"
    unfolding float_of_int_def fl_zero using e by (simp add: mult_le_0_iff)
  then have "fl (float_of_int n * e) \<le> fl 0" by (rule fl_mono)
  then have "fl (float_of_int n * e) / 100 \<le> 0" unfolding fl_zero by simp
  then have "fl (fl (float_of_int n * e) / 100) \<le> fl 0" by (rule fl_mono)
  then show False using c unfolding fl_zero by simp
qed

lemma size_contracts_cost:
  assumes e: "0 < e" "e < 100" and pos: "0 < size_contracts self e grp balance amount"
  shows "real_of_int (size_contracts self e grp balance amount) * e / 100
           \<le> amount * (1 + 11 * eps) + 8 * eta"
    and "0 < amount"
proof -
  let ?n0 = "py_int (fl (fl (amount * 100) / e))"
  let ?cur = "get_correlation_exposure self grp"
  let ?c0 = "fl (fl (float_of_int ?n0 * e) / 100)"
  let ?maxe = "fl (balance * max_concentration (config self))"
  let ?avail = "fl (?maxe - ?cur)"
  let ?n1 = "py_int (fl (fl (?avail * 100) / e))"
  have both: "real_of_int (size_contracts self e grp balance amount) * e / 100
           \<le> amount * (1 + 11 * eps) + 8 * eta \<and> 0 < amount"
  proof (cases "fl (?cur + ?c0) > ?maxe")
    case True
    with pos have res: "size_contracts self e grp balance amount = ?n1" and n1: "1 \<le> ?n1"
      and av: "0 < ?avail"
      by (simp_all add: size_contracts_def Let_def split: if_splits)
    have c1: "real_of_int ?n1 * e / 100 \<le> ?avail * (1 + 3 * eps) + 2 * eta"
      using e n1 by (rule contracts_cost_le(1))
    have "fl ?maxe < fl (?cur + ?c0)" using True by (simp add: fl_idem)
    then have "?maxe < ?cur + ?c0" by (rule fl_mono_rev)
    then have "?maxe - ?cur \<le> ?c0" by simp
    then have "?avail \<le> fl ?c0" by (rule fl_mono)
    then have ac: "?avail \<le> ?c0" by (simp add: fl_idem)
    then have "0 < ?c0" using av by linarith
    then have n0: "1 \<le> ?n0" using e(1) by (intro contracts_exposure_pos)
    have c0: "real_of_int ?n0 * e / 100 \<le> amount * (1 + 3 * eps) + 2 * eta"
      using e n0 by (rule contracts_cost_le(1))
    have am: "0 < amount" using e n0 by (rule contracts_cost_le(2))
    have ex: "?c0 \<le> real_of_int ?n0 * e / 100 * (1 + 4 * eps) + 3 * eta"
      using e n0 by (intro contracts_exposure_le) simp_all
    have "real_of_int ?n1 * e / 100 \<le> amount * (1 + 11 * eps) + 8 * eta"
      using c1 ac c0 ex am av eta_pos by (rule arith_reduced)
    then show ?thesis using res am by simp
  next
    case False
    with pos have res: "size_contracts self e grp balance amount = ?n0" and n0: "1 \<le> ?n0"
      by (simp_all add: size_contracts_def Let_def split: if_splits)
    have c0: "real_of_int ?n0 * e / 100 \<le> amount * (1 + 3 * eps) + 2 * eta"
      using e n0 by (rule contracts_cost_le(1))
    have am: "0 < amount" using e n0 by (rule contracts_cost_le(2))
    have "real_of_int ?n0 * e / 100 \<le> amount * (1 + 11 * eps) + 8 * eta"
      using c0 am eta_pos by (rule arith_direct)
    then show ?thesis using res am by simp
  qed
  show "real_of_int (size_contracts self e grp balance amount) * e / 100
           \<le> amount * (1 + 11 * eps) + 8 * eta" using both by simp
  show "0 < amount" using both by simp
qed

lemma fl_value_1: "fl (1 / 4) = 1 / 4"
  using fl_eqI [of "- 2" "1 / 4" "4503599627370496"] by (simp add: rne_def Let_def power_int_minus)

lemma fl_value_2: "fl (1 / 10) = 3602879701896397 / 36028797018963968"
  using fl_eqI [of "- 4" "1 / 10" "7205759403792794"] by (simp add: rne_def Let_def power_int_minus)

lemma fl_value_3: "fl (1 / 5) = 3602879701896397 / 18014398509481984"
  using fl_eqI [of "- 3" "1 / 5" "7205759403792794"] by (simp add: rne_def Let_def power_int_minus)

lemma fl_value_4: "fl (3 / 20) = 5404319552844595 / 36028797018963968"
  using fl_eqI [of "- 3" "3 / 20" "5404319552844595"] by (simp add: rne_def Let_def power_int_minus)

lemma fl_value_5: "fl (1 / 2) = 1 / 2"
  using fl_eqI [of "- 1" "1 / 2" "4503599627370496"] by (simp add: rne_def Let_def power_int_minus)

lemma fl_value_6: "fl (1 / 100) = 5764607523034235 / 576460752303423488"
  using fl_eqI [of "- 7" "1 / 100" "5764607523034235"] by (simp add: rne_def Let_def power_int_minus)

lemma fl_value_7: "fl (2 / 5) = 3602879701896397 / 9007199254740992"
  using fl_eqI [of "- 2" "2 / 5" "7205759403792794"] by (simp add: rne_def Let_def power_int_minus)

lemma fl_value_8: "fl (3 / 10) = 5404319552844595 / 18014398509481984"
  using fl_eqI [of "- 2" "3 / 10" "5404319552844595"] by (simp add: rne_def Let_def power_int_minus)

lemma fl_value_9: "fl (7 / 10) = 3152519739159347 / 4503599627370496"
  using fl_eqI [of "- 1" "7 / 10" "6305039478318694"] by (simp add: rne_def Let_def power_int_minus)

lemma fl_value_10: "fl 50 = 50"
  using fl_eqI [of "5" "50" "7036874417766400"] by (simp add: rne_def Let_def power_int_minus)

lemma fl_value_11: "fl 100 = 100"
  using fl_eqI [of "6" "100" "7036874417766400"] by (simp add: rne_def Let_def power_int_minus)

lemma fl_value_12: "fl 1 = 1"
  using fl_eqI [of "0" "1" "4503599627370496"] by (simp add: rne_def Let_def power_int_minus)

lemma fl_value_13: "fl (5404319552844595 / 9007199254740992) = 5404319552844595 / 9007199254740992"
  using fl_eqI [of "- 1" "5404319552844595 / 9007199254740992" "5404319552844595"] by (simp add: rne_def Let_def power_int_minus)

lemma fl_value_14: "fl (- (900719925474099 / 4503599627370496)) = - (900719925474099 / 4503599627370496)"
  using fl_eqI [of "- 3" "- (900719925474099 / 4503599627370496)" "- 7205759403792792"] by (simp add: rne_def Let_def power_int_minus)

lemma fl_value_15: "fl (3 / 5) = 5404319552844595 / 9007199254740992"
  using fl_eqI [of "- 1" "3 / 5" "5404319552844595"] by (simp add: rne_def Let_def power_int_minus)

lemma fl_value_16: "fl (3602879701896397 / 9007199254740992) = 3602879701896397 / 9007199254740992"
  using fl_eqI [of "- 2" "3602879701896397 / 9007199254740992" "7205759403792794"] by (simp add: rne_def Let_def power_int_minus)

lemma fl_value_17: "fl (900719925474099 / 4503599627370496) = 900719925474099 / 4503599627370496"
  using fl_eqI [of "- 3" "900719925474099 / 4503599627370496" "7205759403792792"] by (simp add: rne_def Let_def power_int_minus)

lemma fl_value_18: "fl (900719925474099 / 9007199254740992) = 900719925474099 / 9007199254740992"
  using fl_eqI [of "- 4" "900719925474099 / 9007199254740992" "7205759403792792"] by (simp add: rne_def Let_def power_int_minus)

lemma fl_value_19: "fl (22517998136852475 / 2251799813685248) = 5629499534213119 / 562949953421312"
  using fl_eqI [of "3" "22517998136852475 / 2251799813685248" "5629499534213119"] by (simp add: rne_def Let_def power_int_minus)

lemma fl_value_20: "fl (140737488355327975 / 140737488355328) = 4398046511103999 / 4398046511104"
  using fl_eqI [of "9" "140737488355327975 / 140737488355328" "8796093022207998"] by (simp add: rne_def Let_def power_int_minus)

lemma fl_value_21: "fl (4398046511103999 / 219902325555200) = 5629499534213119 / 281474976710656"
  using fl_eqI [of "4" "4398046511103999 / 219902325555200" "5629499534213119"] by (simp add: rne_def Let_def power_int_minus)

lemma fl_value_22: "fl 19 = 19"
  using fl_eqI [of "4" "19" "5348024557502464"] by (simp add: rne_def Let_def power_int_minus)

lemma fl_value_23: "fl 950 = 950"
  using fl_eqI [of "9" "950" "8356288371097600"] by (simp add: rne_def Let_def power_int_minus)

lemma fl_value_24: "fl (19 / 2) = 19 / 2"
  using fl_eqI [of "3" "19 / 2" "5348024557502464"] by (simp add: rne_def Let_def power_int_minus)

lemma fl_value_25: "fl (135107988821114875 / 4503599627370496) = 30"
  using fl_eqI [of "4" "135107988821114875 / 4503599627370496" "8444249301319680"] by (simp add: rne_def Let_def power_int_minus)

lemma fl_value_26: "fl (3 / 100) = 1080863910568919 / 36028797018963968"
  using fl_eqI [of "- 6" "3 / 100" "8646911284551352"] by (simp add: rne_def Let_def power_int_minus)

lemma fl_value_27: "fl 3 = 3"
  using fl_eqI [of "1" "3" "6755399441055744"] by (simp add: rne_def Let_def power_int_minus)

lemma fl_value_28: "fl 97 = 97"
  using fl_eqI [of "6" "97" "6825768185233408"] by (simp add: rne_def Let_def power_int_minus)

lemma fl_value_29: "fl (97 / 3) = 4550512123488939 / 140737488355328"
  using fl_eqI [of "5" "97 / 3" "4550512123488939"] by (simp add: rne_def Let_def power_int_minus)

lemma fl_value_30: "fl (34947933108395049 / 36028797018963968) = 4368491638549381 / 4503599627370496"
  using fl_eqI [of "- 1" "34947933108395049 / 36028797018963968" "8736983277098762"] by (simp add: rne_def Let_def power_int_minus)

lemma fl_value_31: "fl (4368491638549381 / 145616387951646048) = 8646911284551351 / 288230376151711744"
  using fl_eqI [of "- 6" "4368491638549381 / 145616387951646048" "8646911284551351"] by (simp add: rne_def Let_def power_int_minus)

lemma fl_value_32: "fl (1 / 288230376151711744) = 1 / 288230376151711744"
  using fl_eqI [of "- 58" "1 / 288230376151711744" "4503599627370496"] by (simp add: rne_def Let_def power_int_minus)

lemma fl_value_33: "fl (1 / 576460752303423488) = 1 / 576460752303423488"
  using fl_eqI [of "- 59" "1 / 576460752303423488" "4503599627370496"] by (simp add: rne_def Let_def power_int_minus)

lemma fl_value_34: "fl (5764607523034235 / 576460752303423488) = 5764607523034235 / 576460752303423488"
  using fl_eqI [of "- 7" "5764607523034235 / 576460752303423488" "5764607523034235"] by (simp add: rne_def Let_def power_int_minus)

lemma fl_value_35: "fl (144115188075855875 / 144115188075855872) = 1"
  using fl_eqI [of "0" "144115188075855875 / 144115188075855872" "4503599627370496"] by (simp add: rne_def Let_def power_int_minus)

lemma fl_value_36: "fl (100 / 3) = 4691249611844267 / 140737488355328"
  using fl_eqI [of "5" "100 / 3" "4691249611844267"] by (simp add: rne_def Let_def power_int_minus)

lemma fl_value_37: "fl 33 = 33"
  using fl_eqI [of "5" "33" "4644337115725824"] by (simp add: rne_def Let_def power_int_minus)

lemma fl_value_38: "fl 99 = 99"
  using fl_eqI [of "6" "99" "6966505673588736"] by (simp add: rne_def Let_def power_int_minus)

lemma fl_value_39: "fl (99 / 100) = 4458563631096791 / 4503599627370496"
  using fl_eqI [of "- 1" "99 / 100" "8917127262193582"] by (simp add: rne_def Let_def power_int_minus)

lemma fl_value_40: "fl (4458563631096791 / 4503599627370496) = 4458563631096791 / 4503599627370496"
  using fl_eqI [of "- 1" "4458563631096791 / 4503599627370496" "8917127262193582"] by (simp add: rne_def Let_def power_int_minus)

lemma fl_value_41: "fl (40 / 3) = 7505999378950827 / 562949953421312"
  using fl_eqI [of "3" "40 / 3" "7505999378950827"] by (simp add: rne_def Let_def power_int_minus)

lemma fl_value_42: "fl 1000 = 1000"
  using fl_eqI [of "9" "1000" "8796093022208000"] by (simp add: rne_def Let_def power_int_minus)

lemma fl_value_43: "fl (48788995963180373 / 562949953421312) = 6098624495397547 / 70368744177664"
  using fl_eqI [of "6" "48788995963180373 / 562949953421312" "6098624495397547"] by (simp add: rne_def Let_def power_int_minus)

lemma fl_value_44: "fl (48788995963180376 / 7505999378950827) = 13 / 2"
  using fl_eqI [of "2" "48788995963180376 / 7505999378950827" "7318349394477056"] by (simp add: rne_def Let_def power_int_minus)

lemma fl_value_45: "fl (277144592453569 / 4503599627370496) = 277144592453569 / 4503599627370496"
  using fl_eqI [of "- 5" "277144592453569 / 4503599627370496" "8868626958514208"] by (simp add: rne_def Let_def power_int_minus)

lemma fl_value_46: "fl (4850030367937457 / 9007199254740992) = 4850030367937457 / 9007199254740992"
  using fl_eqI [of "- 1" "4850030367937457 / 9007199254740992" "4850030367937457"] by (simp add: rne_def Let_def power_int_minus)

lemma fl_value_47: "fl (4850030367937457 / 18014398509481984) = 4850030367937457 / 18014398509481984"
  using fl_eqI [of "- 2" "4850030367937457 / 18014398509481984" "4850030367937457"] by (simp add: rne_def Let_def power_int_minus)

lemma fl_value_48: "fl (450359962737049625 / 4503599627370496) = 100"
  using fl_eqI [of "6" "450359962737049625 / 4503599627370496" "7036874417766400"] by (simp add: rne_def Let_def power_int_minus)

lemma fl_value_49: "fl 10000 = 10000"
  using fl_eqI [of "13" "10000" "5497558138880000"] by (simp add: rne_def Let_def power_int_minus)

lemma fl_value_50: "fl (5629499534213120000 / 7505999378950827) = 750"
  using fl_eqI [of "9" "5629499534213120000 / 7505999378950827" "6597069766656000"] by (simp add: rne_def Let_def power_int_minus)

lemma fl_value_51: "fl 750 = 750"
  using fl_eqI [of "9" "750" "6597069766656000"] by (simp add: rne_def Let_def power_int_minus)

lemma fl_value_52: "fl (2814749767106560125 / 281474976710656) = 10000"
  using fl_eqI [of "13" "2814749767106560125 / 281474976710656" "5497558138880000"] by (simp add: rne_def Let_def power_int_minus)

lemma fl_value_53: "fl (675539944105574375 / 2251799813685248) = 300"
  using fl_eqI [of "8" "675539944105574375 / 2251799813685248" "5277655813324800"] by (simp add: rne_def Let_def power_int_minus)

lemmas fl_values = fl_zero fl_value_1 fl_value_2 fl_value_3 fl_value_4 fl_value_5 fl_value_6 fl_value_7 fl_value_8 fl_value_9 fl_value_10 fl_value_11 fl_value_12 fl_value_13 fl_value_14 fl_value_15 fl_value_16 fl_value_17 fl_value_18 fl_value_19 fl_value_20 fl_value_21 fl_value_22 fl_value_23 fl_value_24 fl_value_25 fl_value_26 fl_value_27 fl_value_28 fl_value_29 fl_value_30 fl_value_31 fl_value_32 fl_value_33 fl_value_34 fl_value_35 fl_value_36 fl_value_37 fl_value_38 fl_value_39 fl_value_40 fl_value_41 fl_value_42 fl_value_43 fl_value_44 fl_value_45 fl_value_46 fl_value_47 fl_value_48 fl_value_49 fl_value_50 fl_value_51 fl_value_52 fl_value_53



lemma arith_final_amount:
  fixes cost am h :: real
  assumes "cost \<le> am * (1 + 11 * eps) + 8 * h" "0 < am" "0 < h"
  shows "cost \<le> (1 + 16 * eps) * am + 32 * h"
  using assms unfolding eps_val by (simp add: field_simps)

lemma arith_final_limit:
  fixes cost am h lim :: real
  assumes "cost \<le> am * (1 + 11 * eps) + 8 * h" "0 < am" "am \<le> lim" "0 < h"
  shows "cost \<le> (1 + 16 * eps) * lim + 32 * h"
  using assms unfolding eps_val by (simp add: field_simps)

lemma arith_final_alloc:
  fixes cost am h bf lim :: real
  assumes "cost \<le> am * (1 + 11 * eps) + 8 * h" "0 < am" "am \<le> bf + bf * eps + h"
    "0 < bf" "bf \<le> lim" "0 < h"
  shows "cost \<le> (1 + 16 * eps) * lim + 32 * h"
  using assms unfolding eps_val by (simp add: field_simps)

lemma check_trade_risk_positive:
  assumes "0 < fst (check_trade_risk self opp pf now)"
  shows "gates_pass self opp now"
    and "0 < entry_price opp" and "entry_price opp < 100"
    and "0 < kelly_fraction (probability opp) (entry_price opp)"
    and "fst (check_trade_risk self opp pf now) =
           size_contracts self (entry_price opp) (correlation_group opp) (get_balance pf)
             (trade_amount_usd self (get_balance pf)
                (target_fraction self (kelly_fraction (probability opp) (entry_price opp))))"
  using assms
  by (simp_all add: check_trade_risk_def gates_pass_def split: if_splits)

lemma check_trade_risk_accept:
  assumes "gates_pass self opp now" "0 < entry_price opp" "entry_price opp < 100"
    and "0 < kelly_fraction (probability opp) (entry_price opp)"
  shows "check_trade_risk self opp pf now =
           (size_contracts self (entry_price opp) (correlation_group opp) (get_balance pf)
             (trade_amount_usd self (get_balance pf)
                (target_fraction self (kelly_fraction (probability opp) (entry_price opp)))),
            self)"
  using assms by (simp add: check_trade_risk_def gates_pass_def)

lemma volatility_adjustment_nonneg:
  assumes "0 \<le> max_volatility_threshold (config self)"
  shows "0 \<le> calculate_volatility_adjustment self"
proof (cases "volatility_estimate self \<le> 0
    \<or> \<not> volatility_estimate self > max_volatility_threshold (config self)")
  case True
  then show ?thesis by (auto simp add: calculate_volatility_adjustment_def)
next
  case False
  then have "0 \<le> max_volatility_threshold (config self) / volatility_estimate self"
    using assms by simp
  then have "0 \<le> fl (max_volatility_threshold (config self) / volatility_estimate self)"
    by (rule fl_nonneg)
  then show ?thesis using False by (simp add: calculate_volatility_adjustment_def)
qed

lemma target_fraction_nonneg:
  assumes "0 \<le> min_kelly_fraction (config self)"
    and "0 \<le> max_volatility_threshold (config self)"
  shows "0 \<le> target_fraction self kf"
proof -
  let ?tf = "max (min_kelly_fraction (config self))
                 (min (fl (kf * kelly_multiplier (config self)))
                      (max_kelly_fraction (config self)))"
  have tf: "0 \<le> ?tf" using assms(1) by (simp add: le_max_iff_disj)
  have "0 \<le> ?tf * calculate_volatility_adjustment self"
    using tf volatility_adjustment_nonneg [OF assms(2)] by (rule mult_nonneg_nonneg)
  then have "0 \<le> fl (?tf * calculate_volatility_adjustment self)" by (rule fl_nonneg)
  then show ?thesis using tf by (simp add: target_fraction_def Let_def)
qed

lemma max_alloc_fraction_le:
  "max_alloc_fraction self tf \<le> max_single_trade_allocation (config self)"
  "max_alloc_fraction self tf \<le> max_portfolio_allocation (config self)"
  by (simp_all add: max_alloc_fraction_def min_le_iff_disj)

lemma trade_amount_usd_le:
  "trade_amount_usd self b tf \<le> max_position_size_usd (config self)"
  "trade_amount_usd self b tf \<le> fl (b * max_alloc_fraction self tf)"
  by (simp_all add: trade_amount_usd_def)

text \<open>
  Claim C10, up to the rounding of the float operations. Whenever
  \<^verbatim>\<open>check_trade_risk\<close> returns a positive number \<open>n\<close> of contracts for an opportunity
  with entry price \<open>e\<close>, the cost \<open>n * e / 100\<close>, taken exactly, exceeds neither the
  dollar budget computed before the conversion to contracts nor
  \<^verbatim>\<open>max_position_size_usd\<close> by more than the relative error \<open>2 powi (- 49)\<close> and the
  absolute error \<open>2 powi (- 1070)\<close>; and for a balance \<open>B \<ge> 0\<close>, or for any balance when
  the configured \<^verbatim>\<open>min_kelly_fraction\<close>, \<^verbatim>\<open>max_volatility_threshold\<close>,
  \<^verbatim>\<open>max_portfolio_allocation\<close> and \<^verbatim>\<open>max_single_trade_allocation\<close> are not negative,
  the same holds of the minimum of \<open>B * max_single_trade_allocation\<close>,
  \<open>B * max_portfolio_allocation\<close> and \<^verbatim>\<open>max_position_size_usd\<close>. The integer
  conversion and the concentration step enlarge the budget by no more than that.
\<close>

theorem position_cost_within_limits:
  "0 < fst (check_trade_risk self opp pf now) \<longrightarrow>
     real_of_int (fst (check_trade_risk self opp pf now)) * entry_price opp / 100
       \<le> (1 + 2 powi (- 49))
            * trade_amount_usd self (get_balance pf)
                (target_fraction self (kelly_fraction (probability opp) (entry_price opp)))
          + 2 powi (- 1070) \<and>
     real_of_int (fst (check_trade_risk self opp pf now)) * entry_price opp / 100
       \<le> (1 + 2 powi (- 49)) * max_position_size_usd (config self) + 2 powi (- 1070) \<and>
     (0 \<le> get_balance pf \<or>
      (0 \<le> min_kelly_fraction (config self) \<and> 0 \<le> max_volatility_threshold (config self) \<and>
       0 \<le> max_portfolio_allocation (config self) \<and>
       0 \<le> max_single_trade_allocation (config self)) \<longrightarrow>
        real_of_int (fst (check_trade_risk self opp pf now)) * entry_price opp / 100
          \<le> (1 + 2 powi (- 49))
               * min (min (get_balance pf * max_single_trade_allocation (config self))
                          (get_balance pf * max_portfolio_allocation (config self)))
                     (max_position_size_usd (config self))
             + 2 powi (- 1070))"
proof (intro impI)
  assume pos: "0 < fst (check_trade_risk self opp pf now)"
  let ?cost = "real_of_int (fst (check_trade_risk self opp pf now)) * entry_price opp / 100"
  let ?tf = "target_fraction self (kelly_fraction (probability opp) (entry_price opp))"
  let ?amount = "trade_amount_usd self (get_balance pf) ?tf"
  let ?B = "get_balance pf"
  let ?f = "max_alloc_fraction self ?tf"
  let ?lim = "max_position_size_usd (config self)"
  note p = check_trade_risk_positive [OF pos]
  from pos p(5) have sz: "0 < size_contracts self (entry_price opp) (correlation_group opp)
      ?B ?amount" by simp
  have cost: "?cost \<le> ?amount * (1 + 11 * eps) + 8 * eta"
    using size_contracts_cost(1) [OF p(2) p(3) sz] p(5) by simp
  have am: "0 < ?amount" using p(2) p(3) sz by (rule size_contracts_cost(2))
  have c1: "?cost \<le> (1 + 16 * eps) * ?amount + 32 * eta"
    using cost am eta_pos by (rule arith_final_amount)
  have c2: "?cost \<le> (1 + 16 * eps) * ?lim + 32 * eta"
    using cost am trade_amount_usd_le(1) eta_pos by (rule arith_final_limit)
  have c3: "?cost \<le> (1 + 16 * eps)
               * min (min (?B * max_single_trade_allocation (config self))
                          (?B * max_portfolio_allocation (config self))) ?lim
             + 32 * eta"
    if h: "0 \<le> ?B \<or>
      (0 \<le> min_kelly_fraction (config self) \<and> 0 \<le> max_volatility_threshold (config self) \<and>
       0 \<le> max_portfolio_allocation (config self) \<and>
       0 \<le> max_single_trade_allocation (config self))"
  proof -
    have "0 < fl (?B * ?f)" using am trade_amount_usd_le(2) [of self ?B ?tf] by linarith
    then have bf: "0 < ?B * ?f" by (rule fl_pos_arg)
    have b: "0 \<le> ?B"
    proof (cases "0 \<le> ?B")
      case True
      then show ?thesis .
    next
      case False
      with h have c: "0 \<le> min_kelly_fraction (config self)"
        "0 \<le> max_volatility_threshold (config self)"
        "0 \<le> max_portfolio_allocation (config self)"
        "0 \<le> max_single_trade_allocation (config self)" by simp_all
      have "0 \<le> ?tf" using c(1) c(2) by (rule target_fraction_nonneg)
      then have "0 \<le> ?f" using c(3) c(4) by (simp add: max_alloc_fraction_def)
      then show ?thesis using bf by (simp add: zero_less_mult_iff)
    qed
    have up: "?amount \<le> ?B * ?f + ?B * ?f * eps + eta"
      using trade_amount_usd_le(2) [of self ?B ?tf] fl_upper [of "?B * ?f"] bf by linarith
    have s: "?B * ?f \<le> ?B * max_single_trade_allocation (config self)"
      using max_alloc_fraction_le(1) b by (rule mult_left_mono)
    have q: "?B * ?f \<le> ?B * max_portfolio_allocation (config self)"
      using max_alloc_fraction_le(2) b by (rule mult_left_mono)
    have d1: "?cost \<le> (1 + 16 * eps) * (?B * max_single_trade_allocation (config self))
        + 32 * eta"
      using cost am up bf s eta_pos by (rule arith_final_alloc)
    have d2: "?cost \<le> (1 + 16 * eps) * (?B * max_portfolio_allocation (config self))
        + 32 * eta"
      using cost am up bf q eta_pos by (rule arith_final_alloc)
    show ?thesis using d1 d2 c2 by (simp add: min_def)
  qed
  show "?cost \<le> (1 + 2 powi (- 49)) * ?amount + 2 powi (- 1070) \<and>
     ?cost \<le> (1 + 2 powi (- 49)) * ?lim + 2 powi (- 1070) \<and>
     (0 \<le> ?B \<or>
      (0 \<le> min_kelly_fraction (config self) \<and> 0 \<le> max_volatility_threshold (config self) \<and>
       0 \<le> max_portfolio_allocation (config self) \<and>
       0 \<le> max_single_trade_allocation (config self)) \<longrightarrow>
        ?cost \<le> (1 + 2 powi (- 49))
               * min (min (?B * max_single_trade_allocation (config self))
                          (?B * max_portfolio_allocation (config self))) ?lim
             + 2 powi (- 1070))"
    unfolding eps_16 eta_32 using c1 c2 c3 by blast
qed

lemma lower_yes: "lower ''yes'' = ''yes''"
  by code_simp

lemma sample_opportunity:
  "mk_opportunity tk ''t'' 5 1 ''yes'' e 0 ''r'' 1 p 0 ''general'' =
     \<lparr>ticker = tk, market_title = ''t'', edge = 5, confidence = 1, side = ''yes'',
      entry_price = max 0 (min 100 e), suggested_size = 0, reasoning = ''r'',
      liquidity_score = 1, probability = max 0 (min 1 p), timestamp = 0,
      correlation_group = ''general''\<rparr>"
  by (simp add: mk_opportunity_def post_init_def normalize_side_def lower_yes)

lemma fresh_manager_fields:
  "config (RiskManager_init cfg) = cfg"
  "active_positions (RiskManager_init cfg) = []"
  "ticker_last_trade (RiskManager_init cfg) = []"
  "volatility_estimate (RiskManager_init cfg) = fl (15/100)"
  "daily_loss (circuit_breakers (RiskManager_init cfg)) = False"
  "drawdown (circuit_breakers (RiskManager_init cfg)) = False"
  "trade_frequency (circuit_breakers (RiskManager_init cfg)) = False"
  by (simp_all add: RiskManager_init_def)

lemma fresh_manager_exposure:
  "get_correlation_exposure (RiskManager_init cfg) grp = 0"
  by (simp add: get_correlation_exposure_def fresh_manager_fields)

lemma fresh_manager_nineteen_contracts:
  assumes tk: "tk \<noteq> []"
  shows "check_trade_risk (RiskManager_init RiskConfig_default)
     (mk_opportunity tk ''t'' 5 1 ''yes'' 50 0 ''r'' 1 (fl (3 / 5)) 0 ''general'')
     [''balance'' \<mapsto> 100] now = (19, RiskManager_init RiskConfig_default)"
proof -
  let ?rm = "RiskManager_init RiskConfig_default"
  let ?opp = "mk_opportunity tk ''t'' 5 1 ''yes'' 50 0 ''r'' 1 (fl (3 / 5)) 0 ''general''"
  let ?pf = "[''balance'' \<mapsto> (100::real)]"
  have b: "get_balance ?pf = 100" by (simp add: get_balance_def)
  have f: "probability ?opp = 5404319552844595 / 9007199254740992" "entry_price ?opp = 50"
    "correlation_group ?opp = ''general''" "ticker ?opp = tk" "edge ?opp = 5"
    "confidence ?opp = 1" "liquidity_score ?opp = 1"
    by (simp_all add: sample_opportunity fl_values)
  have g: "gates_pass ?rm ?opp now"
    using tk unfolding gates_pass_def f
    by (simp add: fresh_manager_fields cooldown_active_def RiskConfig_default_def fl_values)
  have k: "kelly_fraction (5404319552844595 / 9007199254740992) 50 = 900719925474099 / 4503599627370496"
    by (simp add: kelly_fraction_def net_odds_def fl_values)
  have "0 < entry_price ?opp" "entry_price ?opp < 100"
    "0 < kelly_fraction (probability ?opp) (entry_price ?opp)"
    by (simp_all add: f k)
  from check_trade_risk_accept [OF g this]
  have acc: "check_trade_risk ?rm ?opp ?pf now =
      (size_contracts ?rm (entry_price ?opp) (correlation_group ?opp) (get_balance ?pf)
         (trade_amount_usd ?rm (get_balance ?pf)
            (target_fraction ?rm (kelly_fraction (probability ?opp) (entry_price ?opp)))),
       ?rm)" .
  have amt: "trade_amount_usd ?rm 100 (target_fraction ?rm (900719925474099 / 4503599627370496)) = 5629499534213119 / 562949953421312"
    by (simp add: trade_amount_usd_def max_alloc_fraction_def target_fraction_def
        calculate_volatility_adjustment_def fresh_manager_fields RiskConfig_default_def
        fl_values)
  have sz: "size_contracts ?rm 50 ''general'' 100 (5629499534213119 / 562949953421312) = 19"
    by (simp add: size_contracts_def fresh_manager_exposure fresh_manager_fields
        RiskConfig_default_def py_int_def float_of_int_def fl_values)
  show ?thesis
    by (simp only: acc f b k amt sz)
qed

lemma fresh_manager_rounded_kelly:
  assumes tk: "tk \<noteq> []"
  shows "check_trade_risk (RiskManager_init RiskConfig_default)
     (mk_opportunity tk ''t'' 5 1 ''yes'' 3 0 ''r'' 1 (fl (3 / 100)) 0 ''general'')
     [''balance'' \<mapsto> 100] now = (33, RiskManager_init RiskConfig_default)"
proof -
  let ?rm = "RiskManager_init RiskConfig_default"
  let ?opp = "mk_opportunity tk ''t'' 5 1 ''yes'' 3 0 ''r'' 1 (fl (3 / 100)) 0 ''general''"
  let ?pf = "[''balance'' \<mapsto> (100::real)]"
  have b: "get_balance ?pf = 100" by (simp add: get_balance_def)
  have f: "probability ?opp = 1080863910568919 / 36028797018963968" "entry_price ?opp = 3"
    "correlation_group ?opp = ''general''" "ticker ?opp = tk" "edge ?opp = 5"
    "confidence ?opp = 1" "liquidity_score ?opp = 1"
    by (simp_all add: sample_opportunity fl_values)
  have g: "gates_pass ?rm ?opp now"
    using tk unfolding gates_pass_def f
    by (simp add: fresh_manager_fields cooldown_active_def RiskConfig_default_def fl_values)
  have k: "kelly_fraction (1080863910568919 / 36028797018963968) 3 = 1 / 288230376151711744"
    by (simp add: kelly_fraction_def net_odds_def fl_values)
  have "0 < entry_price ?opp" "entry_price ?opp < 100"
    "0 < kelly_fraction (probability ?opp) (entry_price ?opp)"
    by (simp_all add: f k)
  from check_trade_risk_accept [OF g this]
  have acc: "check_trade_risk ?rm ?opp ?pf now =
      (size_contracts ?rm (entry_price ?opp) (correlation_group ?opp) (get_balance ?pf)
         (trade_amount_usd ?rm (get_balance ?pf)
            (target_fraction ?rm (kelly_fraction (probability ?opp) (entry_price ?opp)))),
       ?rm)" .
  have amt: "trade_amount_usd ?rm 100 (target_fraction ?rm (1 / 288230376151711744)) = 1"
    by (simp add: trade_amount_usd_def max_alloc_fraction_def target_fraction_def
        calculate_volatility_adjustment_def fresh_manager_fields RiskConfig_default_def
        fl_values)
  have sz: "size_contracts ?rm 3 ''general'' 100 1 = 33"
    by (simp add: size_contracts_def fresh_manager_exposure fresh_manager_fields
        RiskConfig_default_def py_int_def float_of_int_def fl_values)
  show ?thesis
    by (simp only: acc f b k amt sz)
qed

lemma fresh_manager_over_budget:
  assumes tk: "tk \<noteq> []"
  shows "check_trade_risk (RiskManager_init RiskConfig_default)
     (mk_opportunity tk ''t'' 5 1 ''yes'' (fl (40 / 3)) 0 ''r'' 1 (fl (3 / 5)) 0 ''general'')
     [''balance'' \<mapsto> 1000] now = (750, RiskManager_init RiskConfig_default)"
proof -
  let ?rm = "RiskManager_init RiskConfig_default"
  let ?opp = "mk_opportunity tk ''t'' 5 1 ''yes'' (fl (40 / 3)) 0 ''r'' 1 (fl (3 / 5)) 0 ''general''"
  let ?pf = "[''balance'' \<mapsto> (1000::real)]"
  have b: "get_balance ?pf = 1000" by (simp add: get_balance_def)
  have f: "probability ?opp = 5404319552844595 / 9007199254740992" "entry_price ?opp = 7505999378950827 / 562949953421312"
    "correlation_group ?opp = ''general''" "ticker ?opp = tk" "edge ?opp = 5"
    "confidence ?opp = 1" "liquidity_score ?opp = 1"
    by (simp_all add: sample_opportunity fl_values)
  have g: "gates_pass ?rm ?opp now"
    using tk unfolding gates_pass_def f
    by (simp add: fresh_manager_fields cooldown_active_def RiskConfig_default_def fl_values)
  have k: "kelly_fraction (5404319552844595 / 9007199254740992) (7505999378950827 / 562949953421312) = 4850030367937457 / 9007199254740992"
    by (simp add: kelly_fraction_def net_odds_def fl_values)
  have "0 < entry_price ?opp" "entry_price ?opp < 100"
    "0 < kelly_fraction (probability ?opp) (entry_price ?opp)"
    by (simp_all add: f k)
  from check_trade_risk_accept [OF g this]
  have acc: "check_trade_risk ?rm ?opp ?pf now =
      (size_contracts ?rm (entry_price ?opp) (correlation_group ?opp) (get_balance ?pf)
         (trade_amount_usd ?rm (get_balance ?pf)
            (target_fraction ?rm (kelly_fraction (probability ?opp) (entry_price ?opp)))),
       ?rm)" .
  have amt: "trade_amount_usd ?rm 1000 (target_fraction ?rm (4850030367937457 / 9007199254740992)) = 100"
    by (simp add: trade_amount_usd_def max_alloc_fraction_def target_fraction_def
        calculate_volatility_adjustment_def fresh_manager_fields RiskConfig_default_def
        fl_values)
  have sz: "size_contracts ?rm (7505999378950827 / 562949953421312) ''general'' 1000 100 = 750"
    by (simp add: size_contracts_def fresh_manager_exposure fresh_manager_fields
        RiskConfig_default_def py_int_def float_of_int_def fl_values)
  show ?thesis
    by (simp only: acc f b k amt sz)
qed



lemma double_below_100:
  assumes d: "fl e = e" and e: "0 < e" "e < 100"
  shows "e \<le> 100 - 1 / 70368744177664"
proof (rule ccontr)
  assume n: "\<not> e \<le> 100 - 1 / 70368744177664"
  have b: "binade e = 6" using n e by (intro binade_eqI) simp_all
  then have u: "ulp e = 1 / 70368744177664" by (simp add: ulp_def power_int_minus)
  let ?m = "rne (e * 70368744177664)"
  have em: "e = real_of_int ?m / 70368744177664" using d unfolding fl_def u by simp
  then have "real_of_int ?m < 7036874417766400" using e(2) by linarith
  then have "?m < 7036874417766400" by linarith
  then have "?m \<le> 7036874417766399" by linarith
  then have "real_of_int ?m \<le> 7036874417766399" by linarith
  then show False using n em by linarith
qed

lemma fl_small_power: "fl (1 / 70368744177664) = 1 / 70368744177664"
  using fl_eqI [of "- 46" "1 / 70368744177664" "4503599627370496"]
  by (simp add: rne_def Let_def power_int_minus)

lemma fl_unit_roundoff: "fl (1 / 9007199254740992) = 1 / 9007199254740992"
  using fl_eqI [of "- 53" "1 / 9007199254740992" "4503599627370496"]
  by (simp add: rne_def Let_def power_int_minus)

lemma net_odds_positive:
  assumes d: "fl e = e" and e: "0 < e" "e < 100"
  shows "0 < net_odds e"
proof -
  have "1 / 70368744177664 \<le> 100 - e" using double_below_100 [OF d e] by linarith
  then have "fl (1 / 70368744177664) \<le> fl (100 - e)" by (rule fl_mono)
  then have n: "1 / 70368744177664 \<le> fl (100 - e)" unfolding fl_small_power .
  have "1 / 9007199254740992 \<le> (1 / 70368744177664) / (100::real)" by simp
  also have "\<dots> \<le> fl (100 - e) / 100" using n by (simp add: divide_right_mono)
  also have "\<dots> \<le> fl (100 - e) / e"
    using e n by (intro divide_left_mono) simp_all
  finally have "fl (1 / 9007199254740992) \<le> fl (fl (100 - e) / e)" by (rule fl_mono)
  then show ?thesis unfolding net_odds_def fl_unit_roundoff by linarith
qed

lemma kelly_fraction_40: "kelly_fraction (fl (2 / 5)) 50 = - (900719925474099 / 4503599627370496)"
  by (simp add: kelly_fraction_def net_odds_def fl_values)

lemma kelly_fraction_60: "kelly_fraction (fl (3 / 5)) 50 = 900719925474099 / 4503599627370496"
  by (simp add: kelly_fraction_def net_odds_def fl_values)

lemma fresh_manager_amount:
  "trade_amount_usd (RiskManager_init RiskConfig_default) 100
     (target_fraction (RiskManager_init RiskConfig_default)
        (900719925474099 / 4503599627370496)) = 5629499534213119 / 562949953421312"
  by (simp add: trade_amount_usd_def max_alloc_fraction_def target_fraction_def
      calculate_volatility_adjustment_def fresh_manager_fields RiskConfig_default_def
      fl_values)

lemma one_contract_at_50:
  assumes "1 / 2 \<le> x"
  shows "1 \<le> py_int (fl (fl (x * 100) / 50))"
proof -
  have "50 \<le> x * 100" using assms by simp
  then have "fl 50 \<le> fl (x * 100)" by (rule fl_mono)
  then have "1 \<le> fl (x * 100) / 50" by (simp add: fl_values)
  then have "fl 1 \<le> fl (fl (x * 100) / 50)" by (rule fl_mono)
  then have "1 \<le> fl (fl (x * 100) / 50)" by (simp add: fl_values)
  then show ?thesis by (rule py_int_ge_1)
qed

text \<open>
  Claim C2, for the Kelly fraction as the code computes it: in double precision, each
  of the five operations rounded. \<^verbatim>\<open>check_trade_risk\<close> returns 0 whenever the computed
  fraction is not positive, and when the gates pass and it is positive, the size computed
  from it. For probability \<open>0.4\<close> at price 50 the size is 0, whatever the manager and
  the portfolio. For probability \<open>0.6\<close> at price 50 the computed fraction is positive,
  and the size is positive when the gates pass, the dollar budget computed from the
  fraction, the balance and the limits is at least half a dollar, the price of one
  contract, and the concentration cap leaves room for half a dollar.
\<close>

theorem kelly_sizing:
  "kelly_fraction (probability opp) (entry_price opp)
     = fl (probability opp
           - fl (fl (1 - probability opp) / fl (fl (100 - entry_price opp) / entry_price opp))) \<and>
   (kelly_fraction (probability opp) (entry_price opp) \<le> 0
      \<longrightarrow> fst (check_trade_risk self opp pf now) = 0) \<and>
   (gates_pass self opp now \<and> 0 < entry_price opp \<and> entry_price opp < 100 \<and>
    0 < kelly_fraction (probability opp) (entry_price opp)
      \<longrightarrow> fst (check_trade_risk self opp pf now) =
            size_contracts self (entry_price opp) (correlation_group opp) (get_balance pf)
              (trade_amount_usd self (get_balance pf)
                 (target_fraction self
                    (kelly_fraction (probability opp) (entry_price opp))))) \<and>
   (probability opp = fl (4/10) \<and> entry_price opp = 50
      \<longrightarrow> fst (check_trade_risk self opp pf now) = 0) \<and>
   0 < kelly_fraction (fl (6/10)) 50 \<and>
   (probability opp = fl (6/10) \<and> entry_price opp = 50 \<and> gates_pass self opp now \<and>
    1/2 \<le> trade_amount_usd self (get_balance pf)
             (target_fraction self (kelly_fraction (fl (6/10)) 50)) \<and>
    1/2 \<le> fl (get_balance pf * max_concentration (config self))
             - get_correlation_exposure self (correlation_group opp)
      \<longrightarrow> 0 < fst (check_trade_risk self opp pf now))"
proof (intro conjI impI)
  show "kelly_fraction (probability opp) (entry_price opp)
     = fl (probability opp
           - fl (fl (1 - probability opp) / fl (fl (100 - entry_price opp) / entry_price opp)))"
    by (simp add: kelly_fraction_def net_odds_def)
next
  assume "kelly_fraction (probability opp) (entry_price opp) \<le> 0"
  then show "fst (check_trade_risk self opp pf now) = 0"
    by (simp add: check_trade_risk_def)
next
  assume a: "gates_pass self opp now \<and> 0 < entry_price opp \<and> entry_price opp < 100 \<and>
    0 < kelly_fraction (probability opp) (entry_price opp)"
  then show "fst (check_trade_risk self opp pf now) =
            size_contracts self (entry_price opp) (correlation_group opp) (get_balance pf)
              (trade_amount_usd self (get_balance pf)
                 (target_fraction self
                    (kelly_fraction (probability opp) (entry_price opp))))"
    by (simp add: check_trade_risk_accept)
next
  assume "probability opp = fl (4/10) \<and> entry_price opp = 50"
  then have "kelly_fraction (probability opp) (entry_price opp) \<le> 0"
    by (simp add: kelly_fraction_40)
  then show "fst (check_trade_risk self opp pf now) = 0"
    by (simp add: check_trade_risk_def)
next
  show "0 < kelly_fraction (fl (6/10)) 50" by (simp add: kelly_fraction_60)
next
  assume a: "probability opp = fl (6/10) \<and> entry_price opp = 50 \<and> gates_pass self opp now \<and>
    1/2 \<le> trade_amount_usd self (get_balance pf)
             (target_fraction self (kelly_fraction (fl (6/10)) 50)) \<and>
    1/2 \<le> fl (get_balance pf * max_concentration (config self))
             - get_correlation_exposure self (correlation_group opp)"
  let ?amount = "trade_amount_usd self (get_balance pf)
             (target_fraction self (kelly_fraction (fl (6/10)) 50))"
  let ?room = "fl (get_balance pf * max_concentration (config self))
             - get_correlation_exposure self (correlation_group opp)"
  from a have e: "entry_price opp = 50" and p: "probability opp = fl (6/10)" by simp_all
  have kf: "0 < kelly_fraction (fl (6/10)) 50" by (simp add: kelly_fraction_60)
  from a have "1/2 \<le> ?amount" by simp
  then have n0: "1 \<le> py_int (fl (fl (?amount * 100) / 50))" by (rule one_contract_at_50)
  from a have "1/2 \<le> ?room" by simp
  then have "fl (1/2) \<le> fl ?room" by (rule fl_mono)
  then have av: "1/2 \<le> fl ?room" by (simp add: fl_values)
  then have n1: "1 \<le> py_int (fl (fl (fl ?room * 100) / 50))" by (rule one_contract_at_50)
  have "0 < size_contracts self 50 (correlation_group opp) (get_balance pf) ?amount"
    using n0 n1 av by (simp add: size_contracts_def Let_def)
  moreover
  have "check_trade_risk self opp pf now =
      (size_contracts self (entry_price opp) (correlation_group opp) (get_balance pf)
         (trade_amount_usd self (get_balance pf)
            (target_fraction self (kelly_fraction (probability opp) (entry_price opp)))),
       self)"
    by (rule check_trade_risk_accept) (use a kf in simp_all)
  then have "check_trade_risk self opp pf now =
      (size_contracts self 50 (correlation_group opp) (get_balance pf) ?amount, self)"
    by (simp only: e p)
  ultimately show "0 < fst (check_trade_risk self opp pf now)" by simp
qed

theorem kelly_sizing_witness:
  "probability (mk_opportunity ''T'' ''t'' 5 1 ''yes'' 50 0 ''r'' 1 (fl (6/10)) 0 ''general'')
     = fl (6/10) \<and>
   entry_price (mk_opportunity ''T'' ''t'' 5 1 ''yes'' 50 0 ''r'' 1 (fl (6/10)) 0 ''general'')
     = 50 \<and>
   gates_pass (RiskManager_init RiskConfig_default)
     (mk_opportunity ''T'' ''t'' 5 1 ''yes'' 50 0 ''r'' 1 (fl (6/10)) 0 ''general'') 0 \<and>
   0 < fst (check_trade_risk (RiskManager_init RiskConfig_default)
     (mk_opportunity ''T'' ''t'' 5 1 ''yes'' 50 0 ''r'' 1 (fl (6/10)) 0 ''general'')
     [''balance'' \<mapsto> 100] 0) \<and>
   probability (mk_opportunity ''T'' ''t'' 5 1 ''yes'' 50 0 ''r'' 1 (fl (4/10)) 0 ''general'')
     = fl (4/10) \<and>
   kelly_fraction
     (probability (mk_opportunity ''T'' ''t'' 5 1 ''yes'' 50 0 ''r'' 1 (fl (4/10)) 0 ''general''))
     (entry_price (mk_opportunity ''T'' ''t'' 5 1 ''yes'' 50 0 ''r'' 1 (fl (4/10)) 0 ''general''))
     \<le> 0 \<and>
   fst (check_trade_risk (RiskManager_init RiskConfig_default)
     (mk_opportunity ''T'' ''t'' 5 1 ''yes'' 50 0 ''r'' 1 (fl (4/10)) 0 ''general'')
     [''balance'' \<mapsto> 100] 0) = 0"
proof -
  let ?rm = "RiskManager_init RiskConfig_default"
  let ?good = "mk_opportunity ''T'' ''t'' 5 1 ''yes'' 50 0 ''r'' 1 (fl (6/10)) 0 ''general''"
  let ?poor = "mk_opportunity ''T'' ''t'' 5 1 ''yes'' 50 0 ''r'' 1 (fl (4/10)) 0 ''general''"
  let ?pf = "[''balance'' \<mapsto> (100::real)]"
  have b: "get_balance ?pf = 100" by (simp add: get_balance_def)
  have h1: "probability ?good = fl (6/10)" and h2: "entry_price ?good = 50"
    and h3: "probability ?poor = fl (4/10)" and h4: "entry_price ?poor = 50"
    and g: "correlation_group ?good = ''general''"
    by (simp_all add: sample_opportunity fl_values)
  have h5: "gates_pass ?rm ?good 0"
    by (simp add: gates_pass_def sample_opportunity fresh_manager_fields cooldown_active_def
        RiskConfig_default_def fl_values)
  have h6: "1/2 \<le> trade_amount_usd ?rm (get_balance ?pf)
      (target_fraction ?rm (kelly_fraction (fl (6/10)) 50))"
    by (simp add: b kelly_fraction_60 fresh_manager_amount)
  have h7: "1/2 \<le> fl (get_balance ?pf * max_concentration (config ?rm))
             - get_correlation_exposure ?rm (correlation_group ?good)"
    by (simp add: b g fresh_manager_exposure fresh_manager_fields RiskConfig_default_def
        fl_values)
  have h8: "kelly_fraction (probability ?poor) (entry_price ?poor) \<le> 0"
    unfolding h3 h4 by (simp add: kelly_fraction_40)
  from kelly_sizing [of ?good ?rm ?pf 0] h1 h2 h5 h6 h7
  have c1: "0 < fst (check_trade_risk ?rm ?good ?pf 0)" by blast
  from kelly_sizing [of ?poor ?rm ?pf 0] h8
  have c2: "fst (check_trade_risk ?rm ?poor ?pf 0) = 0" by blast
  from h1 h2 h3 h5 h8 c1 c2 show ?thesis by blast
qed

text \<open>
  The exact Kelly fraction of an opportunity is not what decides. At probability
  \<open>0.03\<close> and price 3 the exact \<open>f*\<close> of the two doubles is negative, the computed one
  is \<open>2 powi (- 58)\<close>, and a fresh manager with the default configuration and a
  balance of 100 returns 33 contracts, not 0.
\<close>

theorem kelly_exact_nonpositive_sized:
  "kelly_exact
     (probability (mk_opportunity ''T'' ''t'' 5 1 ''yes'' 3 0 ''r'' 1 (fl (3/100)) 0 ''general''))
     (entry_price (mk_opportunity ''T'' ''t'' 5 1 ''yes'' 3 0 ''r'' 1 (fl (3/100)) 0 ''general''))
     \<le> 0 \<and>
   fst (check_trade_risk (RiskManager_init RiskConfig_default)
     (mk_opportunity ''T'' ''t'' 5 1 ''yes'' 3 0 ''r'' 1 (fl (3/100)) 0 ''general'')
     [''balance'' \<mapsto> 100] 0) = 33"
proof -
  have "fst (check_trade_risk (RiskManager_init RiskConfig_default)
     (mk_opportunity ''T'' ''t'' 5 1 ''yes'' 3 0 ''r'' 1 (fl (3/100)) 0 ''general'')
     [''balance'' \<mapsto> 100] 0) = 33"
    by (simp add: fresh_manager_rounded_kelly)
  moreover have "kelly_exact
     (probability (mk_opportunity ''T'' ''t'' 5 1 ''yes'' 3 0 ''r'' 1 (fl (3/100)) 0 ''general''))
     (entry_price (mk_opportunity ''T'' ''t'' 5 1 ''yes'' 3 0 ''r'' 1 (fl (3/100)) 0 ''general''))
     \<le> 0"
    by (simp add: sample_opportunity fl_values kelly_exact_def)
  ultimately show ?thesis by simp
qed

text \<open>
  Claim C7. \<^verbatim>\<open>check_trade_risk\<close> leaves the manager as it found it, and a second
  call with the same opportunity, portfolio and clock reading on the manager it left
  returns the same size.
\<close>

theorem check_trade_risk_pure:
  "snd (check_trade_risk self opp pf now) = self \<and>
   fst (check_trade_risk (snd (check_trade_risk self opp pf now)) opp pf now)
     = fst (check_trade_risk self opp pf now)"
proof -
  have "snd (check_trade_risk self opp pf now) = self"
    by (simp add: check_trade_risk_def)
  then show ?thesis by simp
qed

theorem position_cost_within_limits_witness:
  "0 < fst (check_trade_risk (RiskManager_init RiskConfig_default)
        (mk_opportunity ''T'' ''t'' 5 1 ''yes'' 50 0 ''r'' 1 (fl (3 / 5)) 0 ''general'')
        [''balance'' \<mapsto> 100] 0) \<and>
   0 \<le> get_balance [''balance'' \<mapsto> 100] \<and>
   real_of_int (fst (check_trade_risk (RiskManager_init RiskConfig_default)
        (mk_opportunity ''T'' ''t'' 5 1 ''yes'' 50 0 ''r'' 1 (fl (3 / 5)) 0 ''general'')
        [''balance'' \<mapsto> 100] 0))
     * entry_price (mk_opportunity ''T'' ''t'' 5 1 ''yes'' 50 0 ''r'' 1 (fl (3 / 5)) 0 ''general'')
     / 100
     \<le> (1 + 2 powi (- 49))
          * min (min (get_balance [''balance'' \<mapsto> 100]
                    * max_single_trade_allocation (config (RiskManager_init RiskConfig_default)))
                 (get_balance [''balance'' \<mapsto> 100]
                    * max_portfolio_allocation (config (RiskManager_init RiskConfig_default))))
            (max_position_size_usd (config (RiskManager_init RiskConfig_default)))
        + 2 powi (- 1070)"
proof -
  let ?rm = "RiskManager_init RiskConfig_default"
  let ?good = "mk_opportunity ''T'' ''t'' 5 1 ''yes'' 50 0 ''r'' 1 (fl (3 / 5)) 0 ''general''"
  let ?pf = "[''balance'' \<mapsto> (100::real)]"
  have h1: "0 < fst (check_trade_risk ?rm ?good ?pf 0)"
    by (simp add: fresh_manager_nineteen_contracts)
  have h2: "0 \<le> get_balance ?pf" by (simp add: get_balance_def)
  from position_cost_within_limits [of ?rm ?good ?pf 0] h1 h2
  have "real_of_int (fst (check_trade_risk ?rm ?good ?pf 0)) * entry_price ?good / 100
      \<le> (1 + 2 powi (- 49))
          * min (min (get_balance ?pf * max_single_trade_allocation (config ?rm))
                  (get_balance ?pf * max_portfolio_allocation (config ?rm)))
             (max_position_size_usd (config ?rm))
        + 2 powi (- 1070)"
    by blast
  with h1 h2 show ?thesis by blast
qed

text \<open>
  Without the rounding error the bound of the claim fails: a fresh manager with the
  default configuration and a balance of 1000 sizes an opportunity of probability
  \<open>0.6\<close> at the price \<open>13.333333333333334\<close>, the double nearest to \<open>40/3\<close>, at 750
  contracts. The budget is \<^verbatim>\<open>max_position_size_usd = 100\<close>, the quotient
  \<open>10000 / 13.333333333333334\<close> rounds up to \<open>750\<close>, and the cost of 750 contracts
  is above 100.
\<close>

theorem position_cost_above_budget:
  "0 < fst (check_trade_risk (RiskManager_init RiskConfig_default)
     (mk_opportunity ''T'' ''t'' 5 1 ''yes'' (fl (40 / 3)) 0 ''r'' 1 (fl (3 / 5)) 0 ''general'')
     [''balance'' \<mapsto> 1000] 0) \<and>
   \<not> real_of_int (fst (check_trade_risk (RiskManager_init RiskConfig_default)
     (mk_opportunity ''T'' ''t'' 5 1 ''yes'' (fl (40 / 3)) 0 ''r'' 1 (fl (3 / 5)) 0 ''general'')
     [''balance'' \<mapsto> 1000] 0))
     * entry_price
         (mk_opportunity ''T'' ''t'' 5 1 ''yes'' (fl (40 / 3)) 0 ''r'' 1 (fl (3 / 5)) 0 ''general'')
     / 100
     \<le> min (min (get_balance [''balance'' \<mapsto> 1000]
                    * max_single_trade_allocation (config (RiskManager_init RiskConfig_default)))
                 (get_balance [''balance'' \<mapsto> 1000]
                    * max_portfolio_allocation (config (RiskManager_init RiskConfig_default))))
            (max_position_size_usd (config (RiskManager_init RiskConfig_default)))"
proof -
  have t: "''T'' \<noteq> []" by simp
  show ?thesis
    unfolding fresh_manager_over_budget [OF t, of 0]
    by (simp add: sample_opportunity get_balance_def fresh_manager_fields
        RiskConfig_default_def fl_values)
qed

section \<open>Properties of the opportunity selection\<close>



lemma fl_key_3: "fl 5 = 5"
  using fl_eqI [of "2" "5" "5629499534213120"] by (simp add: rne_def Let_def power_int_minus)



















end
